theory Spec2Isabelle
  imports Main "HOL-Library.AList"
begin

section \<open>Python text and values\<close>

text \<open>
  A Python \<open>str\<close> is modelled as its UTF-8 bytes (\<open>string\<close>). Case mapping and white
  space are the ASCII ones; every text the source compares against is ASCII, so slicing
  by a literal's length counts the same in bytes and in code points. Non-ASCII white
  space and case pairs of Python's \<open>str\<close> are outside the model.
\<close>

definition py_isspace :: "char \<Rightarrow> bool" where
  \<comment> \<open>\<open>str.isspace\<close> on ASCII: TAB, LF, VT, FF, CR, FS, GS, RS, US and the blank.\<close>
  "py_isspace c = (of_char c \<in> {9, 10, 11, 12, 13, 28, 29, 30, 31, 32 :: nat})"

definition py_strip :: "string \<Rightarrow> string" where
  "py_strip s = rev (dropWhile py_isspace (rev (dropWhile py_isspace s)))"

definition lower_char :: "char \<Rightarrow> char" where
  "lower_char c = (let n = (of_char c :: nat) in if 65 \<le> n \<and> n \<le> 90 then char_of (n + 32) else c)"

definition upper_char :: "char \<Rightarrow> char" where
  "upper_char c = (let n = (of_char c :: nat) in if 97 \<le> n \<and> n \<le> 122 then char_of (n - 32) else c)"

definition py_lower :: "string \<Rightarrow> string" where
  "py_lower s = map lower_char s"

definition py_upper :: "string \<Rightarrow> string" where
  "py_upper s = map upper_char s"

definition startswith :: "string \<Rightarrow> string \<Rightarrow> bool" where
  "startswith s p = (take (length p) s = p)"

definition endswith :: "string \<Rightarrow> string \<Rightarrow> bool" where
  "endswith s p = (length p \<le> length s \<and> drop (length s - length p) s = p)"

fun py_in :: "string \<Rightarrow> string \<Rightarrow> bool" where
  \<comment> \<open>\<open>p in s\<close> on two strings: \<open>p\<close> occurs in \<open>s\<close> as a contiguous run.\<close>
  "py_in p [] = (p = [])"
| "py_in p (c # cs) = (startswith (c # cs) p \<or> py_in p cs)"

fun split_ws :: "string \<Rightarrow> string \<Rightarrow> string list" where
  "split_ws cur [] = (if cur = [] then [] else [cur])"
| "split_ws cur (c # cs) =
     (if py_isspace c then (if cur = [] then split_ws [] cs else cur # split_ws [] cs)
      else split_ws (cur @ [c]) cs)"

definition py_split :: "string \<Rightarrow> string list" where
  \<comment> \<open>\<open>str.split()\<close> with no argument: the words between runs of white space.\<close>
  "py_split s = split_ws [] s"

definition digit_char :: "nat \<Rightarrow> char" where
  "digit_char n = ''0123456789'' ! (n mod 10)"

fun str_nat :: "nat \<Rightarrow> string" where
  "str_nat n = (if n < 10 then [digit_char n] else str_nat (n div 10) @ [digit_char n])"

declare str_nat.simps [simp del]

definition str_int :: "int \<Rightarrow> string" where
  \<comment> \<open>\<open>str(i)\<close>, the text an f-string puts for an \<open>int\<close>.\<close>
  "str_int i = (if i < 0 then CHR ''-'' # str_nat (nat (- i)) else str_nat (nat i))"

text \<open>
  A \<open>float\<close>: a finite one is \<open>m * 2 ^ e\<close> for integers \<open>m\<close> and \<open>e\<close> (every finite double
  has this form), beside the two infinities and NaN.
\<close>

datatype pyfloat = Finite int int | PosInf | NegInf | NaN

datatype pyval =
    PNone
  | PBool bool
  | PInt int
  | PFloat pyfloat
  | PStr string
  | PList "pyval list"
  | PDict "(string \<times> pyval) list"

datatype py_error = AttributeError string | ValueError | TypeError | OverflowError

type_synonym pydict = "(string \<times> pyval) list"

text \<open>
  A \<open>dict\<close> with text keys is an association list in insertion order;
  \<open>d.get(k, default)\<close> and \<open>d[k] = v\<close> are \<open>dict_get\<close> and \<open>dict_set\<close>.
\<close>

definition dict_get :: "pydict \<Rightarrow> string \<Rightarrow> pyval \<Rightarrow> pyval" where
  "dict_get d k dflt = (case map_of d k of Some v \<Rightarrow> v | None \<Rightarrow> dflt)"

definition dict_set :: "pydict \<Rightarrow> string \<Rightarrow> pyval \<Rightarrow> pydict" where
  "dict_set d k v = AList.update k v d"

fun truthy :: "pyval \<Rightarrow> bool" where
  "truthy PNone = False"
| "truthy (PBool b) = b"
| "truthy (PInt i) = (i \<noteq> 0)"
| "truthy (PFloat f) = (case f of Finite m e \<Rightarrow> m \<noteq> 0 | _ \<Rightarrow> True)"
| "truthy (PStr s) = (s \<noteq> [])"
| "truthy (PList xs) = (xs \<noteq> [])"
| "truthy (PDict d) = (d \<noteq> [])"

fun has_number :: "pyval \<Rightarrow> bool" where
  \<comment> \<open>Some number occurs in the value, at any depth.\<close>
  "has_number (PInt i) = True"
| "has_number (PFloat f) = True"
| "has_number (PList xs) = list_ex has_number xs"
| "has_number (PDict d) = list_ex (\<lambda>kv. has_number (snd kv)) d"
| "has_number v = False"

subsection \<open>\<open>int(...)\<close>\<close>

definition is_digit :: "char \<Rightarrow> bool" where
  "is_digit c = (let n = (of_char c :: nat) in 48 \<le> n \<and> n \<le> 57)"

fun digits_ok :: "bool \<Rightarrow> string \<Rightarrow> bool" where
  \<comment> \<open>Digits with single underscores between them; the flag says the previous character
      was a digit.\<close>
  "digits_ok prev [] = prev"
| "digits_ok prev (c # cs) =
     (if is_digit c then digits_ok True cs
      else if c = CHR ''_'' \<and> prev then (cs \<noteq> [] \<and> is_digit (hd cs) \<and> digits_ok False cs)
      else False)"

definition digits_value :: "string \<Rightarrow> nat" where
  "digits_value ds = foldl (\<lambda>acc c. 10 * acc + (of_char c - 48)) 0 (filter is_digit ds)"

definition int_isspace :: "char \<Rightarrow> bool" where
  \<comment> \<open>The white space that \<open>int\<close> skips around ASCII text: TAB, LF, VT, FF, CR and the
      blank (not FS, GS, RS, US, which \<open>str.strip\<close> removes).\<close>
  "int_isspace c = (of_char c \<in> {9, 10, 11, 12, 13, 32 :: nat})"

definition int_of_str :: "string \<Rightarrow> int option" where
  \<comment> \<open>\<open>int(s)\<close> on ASCII text, base 10: surrounding white space, an optional sign, decimal
      digits with single underscores; at most 4300 digits, leading zeros counted (the
      interpreter's default limit). None is ValueError.\<close>
  "int_of_str s =
     (let t = rev (dropWhile int_isspace (rev (dropWhile int_isspace s)));
          neg = (t \<noteq> [] \<and> hd t = CHR ''-'');
          body = (if t \<noteq> [] \<and> (hd t = CHR ''-'' \<or> hd t = CHR ''+'') then tl t else t)
      in if digits_ok False body \<and> length (filter is_digit body) \<le> 4300
         then Some (if neg then - int (digits_value body) else int (digits_value body))
         else None)"

definition is_ascii :: "string \<Rightarrow> bool" where
  "is_ascii s = list_all (\<lambda>c. (of_char c :: nat) < 128) s"

definition float_trunc :: "int \<Rightarrow> int \<Rightarrow> int" where
  \<comment> \<open>\<open>m * 2 ^ e\<close> rounded towards zero.\<close>
  "float_trunc m e =
     (if 0 \<le> e then m * 2 ^ nat e
      else if 0 \<le> m then m div 2 ^ nat (- e)
      else - ((- m) div 2 ^ nat (- e)))"

text \<open>
  \<open>int(v)\<close>. On text with a character beyond ASCII the interpreter also takes the decimal
  digits and spaces of other scripts; that conversion is the parameter \<open>int_unicode\<close>
  (None is ValueError). A finite float is truncated, NaN raises ValueError, an infinity
  raises OverflowError; None, a list and a dict raise TypeError.
\<close>

fun py_int :: "(string \<Rightarrow> int option) \<Rightarrow> pyval \<Rightarrow> py_error + int" where
  "py_int int_unicode (PInt i) = Inr i"
| "py_int int_unicode (PBool b) = Inr (if b then 1 else 0)"
| "py_int int_unicode (PFloat f) =
     (case f of
        Finite m e \<Rightarrow> Inr (float_trunc m e)
      | NaN \<Rightarrow> Inl ValueError
      | _ \<Rightarrow> Inl OverflowError)"
| "py_int int_unicode (PStr s) =
     (case (if is_ascii s then int_of_str s else int_unicode s) of
        Some i \<Rightarrow> Inr i
      | None \<Rightarrow> Inl ValueError)"
| "py_int int_unicode PNone = Inl TypeError"
| "py_int int_unicode (PList xs) = Inl TypeError"
| "py_int int_unicode (PDict d) = Inl TypeError"

definition within_str_limit :: "int \<Rightarrow> bool" where
  \<comment> \<open>The integer has at most 4300 decimal digits, the sign not counted.\<close>
  "within_str_limit i = (length (str_nat (nat \<bar>i\<bar>)) \<le> 4300)"

definition py_str_int :: "int \<Rightarrow> py_error + string" where
  \<comment> \<open>\<open>str(i)\<close> as the interpreter runs it: ValueError beyond the digit limit.\<close>
  "py_str_int i = (if within_str_limit i then Inr (str_int i) else Inl ValueError)"

section \<open>Flight record normalizer: durations\<close>

text \<open>
  \<open>DataAnalystAgent._format_duration\<close> (the legacy formatter): the body of its \<open>try\<close>,
  then the function with its handler, which catches ValueError and TypeError and lets
  every other exception through. The minutes part is below 60, so only the hours can
  pass the digit limit.
\<close>

definition format_duration_body :: "(string \<Rightarrow> int option) \<Rightarrow> pyval \<Rightarrow> py_error + string" where
  "format_duration_body int_unicode minutes0 =
     (case py_int int_unicode minutes0 of
        Inl e \<Rightarrow> Inl e
      | Inr minutes \<Rightarrow>
          (let hours = minutes div 60; mins = minutes mod 60 in
           if hours > 0 \<and> mins > 0
           then (case py_str_int hours of
                   Inl e \<Rightarrow> Inl e
                 | Inr h \<Rightarrow> Inr (h @ ''h '' @ str_int mins @ ''m''))
           else if hours > 0
           then (case py_str_int hours of
                   Inl e \<Rightarrow> Inl e
                 | Inr h \<Rightarrow> Inr (h @ ''h''))
           else Inr (str_int mins @ ''m'')))"

definition format_duration :: "(string \<Rightarrow> int option) \<Rightarrow> pyval \<Rightarrow> py_error + string" where
  "format_duration int_unicode minutes0 =
     (case format_duration_body int_unicode minutes0 of
        Inl ValueError \<Rightarrow> Inr ''0m''
      | Inl TypeError \<Rightarrow> Inr ''0m''
      | Inl e \<Rightarrow> Inl e
      | Inr t \<Rightarrow> Inr t)"

text \<open>
  \<open>DataAnalystAgent._format_duration_from_minutes\<close>, called on integers:
  \<open>format_duration_from_minutes\<close> is the text it builds, and
  \<open>format_duration_from_minutes_call\<close> is the call as the interpreter runs it, which
  raises ValueError (nothing in the method catches it) when the hours have more than 4300
  digits.
\<close>

definition format_duration_from_minutes :: "int \<Rightarrow> string" where
  "format_duration_from_minutes minutes =
     (if minutes \<le> 0 then ''Unknown''
      else
        (let hours = minutes div 60; mins = minutes mod 60 in
         if hours > 0 \<and> mins > 0 then str_int hours @ ''h '' @ str_int mins @ ''m''
         else if hours > 0 then str_int hours @ ''h''
         else str_int mins @ ''m''))"

definition format_duration_from_minutes_call :: "int \<Rightarrow> py_error + string" where
  "format_duration_from_minutes_call minutes =
     (if minutes \<le> 0 then Inr ''Unknown''
      else
        (let hours = minutes div 60; mins = minutes mod 60 in
         if hours > 0 \<and> mins > 0
         then (case py_str_int hours of
                 Inl e \<Rightarrow> Inl e
               | Inr h \<Rightarrow> Inr (h @ ''h '' @ str_int mins @ ''m''))
         else if hours > 0
         then (case py_str_int hours of
                 Inl e \<Rightarrow> Inl e
               | Inr h \<Rightarrow> Inr (h @ ''h''))
         else Inr (str_int mins @ ''m'')))"

section \<open>Layover feasibility: connection type\<close>

text \<open>The threshold chain of \<open>analyze_layover_feasibility\<close> (lines 49 to 57).\<close>

definition connection_type :: "int \<Rightarrow> string" where
  "connection_type duration_minutes =
     (if duration_minutes < 45 then ''tight''
      else if duration_minutes < 120 then ''standard''
      else if duration_minutes < 360 then ''comfortable''
      else ''plenty_of_time'')"

definition tier_rank :: "string \<Rightarrow> nat" where
  \<comment> \<open>The order of the four tiers, for stating monotonicity.\<close>
  "tier_rank t =
     (if t = ''tight'' then 0 else if t = ''standard'' then 1
      else if t = ''comfortable'' then 2 else 3)"

section \<open>Flight record normalizer: airline code and flight number\<close>

definition is_code_char :: "char \<Rightarrow> bool" where
  \<comment> \<open>The character class \<open>[A-Z0-9]\<close>.\<close>
  "is_code_char c = (let n = (of_char c :: nat) in (65 \<le> n \<and> n \<le> 90) \<or> (48 \<le> n \<and> n \<le> 57))"

definition airline_mapping :: "(string \<times> string) list" where
  "airline_mapping =
     [(''delta air lines'', ''DL''), (''delta'', ''DL''),
      (''american airlines'', ''AA''), (''american'', ''AA''),
      (''united airlines'', ''UA''), (''united'', ''UA''),
      (''southwest airlines'', ''WN''), (''southwest'', ''WN''),
      (''jetblue airways'', ''B6''), (''jetblue'', ''B6''),
      (''alaska airlines'', ''AS''), (''alaska'', ''AS''),
      (''spirit airlines'', ''NK''), (''spirit'', ''NK''),
      (''frontier airlines'', ''F9''), (''frontier'', ''F9''),
      (''hawaiian airlines'', ''HA''), (''hawaiian'', ''HA''),
      (''allegiant air'', ''G4''), (''allegiant'', ''G4'')]"

text \<open>
  \<open>DataAnalystAgent._extract_airline_code\<close>, on two texts as its signature says (the
  \<open>isinstance\<close> tests hold). \<open>re.match(r'^([A-Z0-9]{1,3})', ...)\<close> is greedy: it takes
  the longest run of at most three code characters at the start, and matches when that
  run is not empty.
\<close>

definition extract_airline_code :: "string \<Rightarrow> string \<Rightarrow> string" where
  "extract_airline_code flight_number airline_name =
     (let matched = takeWhile is_code_char (take 3 (py_upper flight_number)) in
      if length flight_number \<ge> 2 \<and> matched \<noteq> [] then matched
      else
        (let airline_key = py_strip (py_lower airline_name) in
         case map_of airline_mapping airline_key of
           Some airline_code \<Rightarrow> airline_code
         | None \<Rightarrow>
             (let words = py_split (py_upper airline_name) in
              if length airline_name \<ge> 2 \<and> length words \<ge> 2
              then take 1 (words ! 0) @ take 1 (words ! 1)
              else ''Unknown'')))"

text \<open>\<open>DataAnalystAgent._clean_flight_number\<close>.\<close>

definition clean_flight_number :: "string \<Rightarrow> string \<Rightarrow> string" where
  "clean_flight_number flight_number airline_code =
     (if flight_number = [] \<or> airline_code = [] \<or> airline_code = ''Unknown'' then flight_number
      else
        (let flight_upper = py_strip (py_upper flight_number);
             airline_upper = py_strip (py_upper airline_code)
         in if startswith flight_upper airline_upper
            then
              (let clean_number =
                     dropWhile (\<lambda>c. \<not> is_code_char c)
                       (py_strip (drop (length airline_upper) flight_upper))
               in if clean_number \<noteq> [] then clean_number else flight_number)
            else flight_number))"

section \<open>Weather classifier\<close>

definition any_term_in :: "string list \<Rightarrow> string \<Rightarrow> bool" where
  \<comment> \<open>\<open>any(term in conditions for term in terms)\<close>\<close>
  "any_term_in terms conditions = list_ex (\<lambda>term. py_in term conditions) terms"

text \<open>
  The keyword chain of \<open>WeatherIntelligenceAgent._add_deterministic_risk_assessment\<close>
  (lines 429 to 442) on the lower-cased conditions: the level and its description.
\<close>

definition deterministic_risk :: "string \<Rightarrow> string \<times> string" where
  "deterministic_risk conditions =
     (if any_term_in [''thunderstorm'', ''storm'', ''heavy rain'', ''heavy snow'', ''fog'', ''ice'']
           conditions
      then (''high'',
            ''Severe weather conditions may cause significant flight delays and cancellations.'')
      else if any_term_in [''rain'', ''snow'', ''cloudy'', ''overcast''] conditions
      then (''medium'',
            ''Moderate weather conditions may cause minor delays and require standard precautions.'')
      else if any_term_in [''partly cloudy'', ''clear'', ''sunny'', ''fair''] conditions
      then (''low'', ''Good weather conditions with minimal impact on flight operations.'')
      else (''low'', ''Good flying conditions with minimal weather impact.''))"

definition risk_entry :: "string \<Rightarrow> string \<Rightarrow> pyval" where
  "risk_entry level description =
     PDict [(''level'', PStr level), (''description'', PStr description)]"

text \<open>
  \<open>_add_deterministic_risk_assessment\<close> on a dict. A \<open>conditions\<close> value that is not
  text has no \<open>lower\<close>: the handler then stores the medium assessment.
\<close>

definition add_deterministic_risk_assessment :: "pydict \<Rightarrow> pydict" where
  "add_deterministic_risk_assessment weather_data =
     (case dict_get weather_data ''conditions'' (PStr []) of
        PStr c \<Rightarrow>
          (let (risk_level, risk_description) = deterministic_risk (py_lower c)
           in dict_set weather_data ''deterministic_risk'' (risk_entry risk_level risk_description))
      | _ \<Rightarrow>
          dict_set weather_data ''deterministic_risk''
            (risk_entry ''medium'' ''Weather assessment temporarily unavailable''))"

definition classify_weather :: "string \<Rightarrow> pyval" where
  \<comment> \<open>The assessment stored for a weather record that holds just this conditions text.\<close>
  "classify_weather conditions =
     dict_get (add_deterministic_risk_assessment [(''conditions'', PStr conditions)])
       ''deterministic_risk'' PNone"

section \<open>The text-generation service\<close>

text \<open>
  A prompt is kept as the values its f-string interpolates. The service is a function of
  the calls made so far and the prompt; it answers with text or raises. Every call is
  appended to the log that the operations thread through.
\<close>

record layover_data =
  ld_airport_code :: "string option"
  ld_duration_str :: "string option"
  ld_weather_risk :: "string option"
  ld_airport_complexity :: "string option"
  ld_arrival_time :: "string option"
  ld_travel_date :: "string option"

datatype prompt =
    DurationPrompt string
  | LayoverPrompt string string "int option" string "string option" "string option" pyval pyval
  | BatchPrompt "(nat \<times> string \<times> string \<times> string \<times> string \<times> string \<times> string) list"
  | RealtimeWeatherPrompt string string pydict
  | SeasonalWeatherPrompt string string nat

datatype reply = Text string | Raises

type_synonym gemini = "prompt list \<Rightarrow> prompt \<Rightarrow> reply"

definition generate_content :: "gemini \<Rightarrow> prompt \<Rightarrow> prompt list \<Rightarrow> reply \<times> prompt list" where
  "generate_content g p calls = (g calls p, calls @ [p])"

definition json_fence :: string where
  "json_fence = [CHR 0x60, CHR 0x60, CHR 0x60] @ ''json''"

definition fence :: string where
  "fence = [CHR 0x60, CHR 0x60, CHR 0x60]"

definition strip_fences :: "string \<Rightarrow> string" where
  \<comment> \<open>\<open>if s.startswith('```json'): s = s[7:]\<close> then \<open>if s.endswith('```'): s = s[:-3]\<close>\<close>
  "strip_fences s =
     (let s1 = (if startswith s json_fence then drop 7 s else s)
      in if endswith s1 fence then take (length s1 - 3) s1 else s1)"


definition cross_mark :: string where
  \<comment> \<open>U+274C, the mark that starts the agent's error texts.\<close>
  "cross_mark = [CHR 0xE2, CHR 0x9D, CHR 0x8C]"

section \<open>Layover analysis agent\<close>

text \<open>
  \<open>gemini_model\<close> is None when the constructor could not build the model.
  \<open>loads\<close> stands for \<open>json.loads\<close>: None is \<open>JSONDecodeError\<close>. The model's answer to
  the duration prompt is converted with \<open>int_of_str\<close>, which is exact on ASCII answers; an
  answer written with the digits of another script counts as a parse failure here.
\<close>

definition parse_duration_with_ai ::
  "gemini option \<Rightarrow> string \<Rightarrow> prompt list \<Rightarrow> int option \<times> prompt list" where
  "parse_duration_with_ai gemini_model duration_str calls =
     (case gemini_model of
        None \<Rightarrow> (None, calls)
      | Some g \<Rightarrow>
          (case generate_content g (DurationPrompt duration_str) calls of
             (Raises, calls') \<Rightarrow> (None, calls')
           | (Text t, calls') \<Rightarrow> (int_of_str (py_strip t), calls')))"

definition clean_layover_response :: "string \<Rightarrow> string" where
  \<comment> \<open>Lines 213 to 219 of \<open>_get_ai_layover_analysis\<close>.\<close>
  "clean_layover_response text = strip_fences (py_strip text)"

definition layover_unavailable :: pyval where
  "layover_unavailable =
     PDict [(''error'', PStr (cross_mark @ '' AI layover analysis system unavailable''))]"

definition layover_invalid_format :: pyval where
  "layover_invalid_format =
     PDict [(''error'',
             PStr (cross_mark @ '' AI layover analysis failed - invalid response format''))]"

definition layover_prompt ::
  "string \<Rightarrow> string \<Rightarrow> int option \<Rightarrow> string \<Rightarrow> string option \<Rightarrow> string option \<Rightarrow>
   pydict \<Rightarrow> prompt" where
  \<comment> \<open>The prompt of lines 137 to 210; \<open>weather_data.get\<close> supplies the two defaults.\<close>
  "layover_prompt airport_code duration_str duration_minutes connection_type0 arrival_time
       travel_date wd =
     LayoverPrompt airport_code duration_str duration_minutes connection_type0 arrival_time
       travel_date
       (dict_get wd ''risk_level'' (PStr ''medium''))
       (dict_get wd ''airport_complexity'' (PStr ''medium''))"

definition get_ai_layover_analysis ::
  "gemini option \<Rightarrow> (string \<Rightarrow> pyval option) \<Rightarrow> string \<Rightarrow> string \<Rightarrow> string \<Rightarrow>
   string option \<Rightarrow> string option \<Rightarrow> pydict option \<Rightarrow> prompt list \<Rightarrow> pyval \<times> prompt list" where
  "get_ai_layover_analysis gemini_model loads duration_str airport_code connection_type0
       arrival_time travel_date weather_data calls =
     (case gemini_model of
        None \<Rightarrow> (layover_unavailable, calls)
      | Some g \<Rightarrow>
          (let (duration_minutes, calls1) = parse_duration_with_ai gemini_model duration_str calls
           in case weather_data of
                None \<Rightarrow> (layover_unavailable, calls1)
              | Some wd \<Rightarrow>
                  (let p = layover_prompt airport_code duration_str duration_minutes
                             connection_type0 arrival_time travel_date wd
                   in case generate_content g p calls1 of
                        (Raises, calls2) \<Rightarrow> (layover_unavailable, calls2)
                      | (Text t, calls2) \<Rightarrow>
                          (case loads (clean_layover_response t) of
                             None \<Rightarrow> (layover_invalid_format, calls2)
                           | Some analysis \<Rightarrow> (analysis, calls2)))))"

definition apostrophe :: string where
  "apostrophe = [CHR 0x27]"

fun type_name :: "pyval \<Rightarrow> string" where
  "type_name PNone = ''NoneType''"
| "type_name (PBool b) = ''bool''"
| "type_name (PInt i) = ''int''"
| "type_name (PFloat f) = ''float''"
| "type_name (PStr s) = ''str''"
| "type_name (PList xs) = ''list''"
| "type_name (PDict d) = ''dict''"

fun error_in :: "pyval \<Rightarrow> string + bool" where
  \<comment> \<open>\<open>'error' in v\<close>; \<open>Inl\<close> is the text of the TypeError.\<close>
  "error_in (PDict d) = Inr (map_of d ''error'' \<noteq> None)"
| "error_in (PList xs) = Inr (PStr ''error'' \<in> set xs)"
| "error_in (PStr s) = Inr (py_in ''error'' s)"
| "error_in v =
     Inl (''argument of type '' @ apostrophe @ type_name v @ apostrophe @ '' is not iterable'')"

fun error_of :: "pyval \<Rightarrow> string + pyval" where
  \<comment> \<open>\<open>v['error']\<close>, reached only when \<open>'error' in v\<close> holds.\<close>
  "error_of (PDict d) = Inr (dict_get d ''error'' PNone)"
| "error_of (PList xs) = Inl ''list indices must be integers or slices, not str''"
| "error_of v =
     Inl (''string indices must be integers, not '' @ apostrophe @ ''str'' @ apostrophe)"

definition analysis_exception :: "string \<Rightarrow> string \<Rightarrow> pydict" where
  \<comment> \<open>The payload of the outer handler of \<open>analyze_layover_feasibility\<close>.\<close>
  "analysis_exception airport_code msg =
     [(''error'', PStr (''Layover analysis failed: '' @ msg)),
      (''airport_code'', PStr airport_code),
      (''analysis_failed'', PBool True)]"

definition analysis_error :: "pyval \<Rightarrow> string \<Rightarrow> int \<Rightarrow> string \<Rightarrow> pydict" where
  "analysis_error err airport_code duration_minutes connection_type0 =
     [(''error'', err),
      (''airport_code'', PStr airport_code),
      (''duration_minutes'', PInt duration_minutes),
      (''connection_type'', PStr connection_type0),
      (''analysis_failed'', PBool True)]"

text \<open>
  \<open>LayoverAnalysisAgent.analyze_layover_feasibility\<close>; \<open>now\<close> is the timestamp text of
  the moment of the call.
\<close>

definition analyze_layover_feasibility ::
  "gemini option \<Rightarrow> (string \<Rightarrow> pyval option) \<Rightarrow> string \<Rightarrow> string \<Rightarrow> string \<Rightarrow>
   string option \<Rightarrow> string option \<Rightarrow> pydict option \<Rightarrow> prompt list \<Rightarrow> pydict \<times> prompt list" where
  "analyze_layover_feasibility gemini_model loads now duration_str airport_code
       arrival_time travel_date weather_data calls =
     (case parse_duration_with_ai gemini_model duration_str calls of
        (None, calls1) \<Rightarrow>
          ([(''error'', PStr (''Unable to parse duration: '' @ duration_str)),
            (''airport_code'', PStr airport_code),
            (''analysis_failed'', PBool True)], calls1)
      | (Some duration_minutes, calls1) \<Rightarrow>
          (let connection_type0 = connection_type duration_minutes in
           if Option.is_none gemini_model
           then (analysis_error (PStr ''AI analysis model not available'') airport_code
                   duration_minutes connection_type0, calls1)
           else
             (let (ai_analysis, calls2) =
                    get_ai_layover_analysis gemini_model loads duration_str airport_code
                      connection_type0 arrival_time travel_date weather_data calls1
              in case error_in ai_analysis of
                   Inl msg \<Rightarrow> (analysis_exception airport_code msg, calls2)
                 | Inr True \<Rightarrow>
                     (case error_of ai_analysis of
                        Inl msg \<Rightarrow> (analysis_exception airport_code msg, calls2)
                      | Inr err \<Rightarrow>
                          (analysis_error err airport_code duration_minutes connection_type0,
                           calls2))
                 | Inr False \<Rightarrow>
                     ([(''duration_minutes'', PInt duration_minutes),
                       (''duration_formatted'', PStr duration_str),
                       (''airport_code'', PStr airport_code),
                       (''connection_type'', PStr connection_type0),
                       (''ai_analysis'', ai_analysis),
                       (''analysis_timestamp'', PStr now),
                       (''data_source'', PStr ''Real AI Analysis''),
                       (''analysis_successful'', PBool True)], calls2))))"

text \<open>
  \<open>LayoverAnalysisAgent.analyze_batch_layover_feasibility\<close>. With no model,
  \<open>self.gemini_model.generate_content\<close> raises AttributeError inside the \<open>try\<close>.
\<close>

definition opt_or :: "string option \<Rightarrow> string \<Rightarrow> string" where
  "opt_or v dflt = (case v of Some s \<Rightarrow> s | None \<Rightarrow> dflt)"

definition layover_summary ::
  "nat \<Rightarrow> layover_data \<Rightarrow> nat \<times> string \<times> string \<times> string \<times> string \<times> string \<times> string" where
  "layover_summary i ld =
     (i + 1, opt_or (ld_airport_code ld) ''Unknown'', opt_or (ld_duration_str ld) ''1h'',
      opt_or (ld_weather_risk ld) ''medium'', opt_or (ld_airport_complexity ld) ''medium'',
      opt_or (ld_arrival_time ld) ''Unknown'', opt_or (ld_travel_date ld) ''Unknown'')"

definition clean_batch_response :: "string \<Rightarrow> string" where
  \<comment> \<open>Lines 407 to 414.\<close>
  "clean_batch_response text = py_strip (strip_fences (py_strip text))"

definition batch_prompt :: "layover_data list \<Rightarrow> prompt" where
  \<comment> \<open>The prompt of lines 344 to 404: one summary per layover, numbered from 1.\<close>
  "batch_prompt layover_data_list =
     BatchPrompt
       (map (\<lambda>(i, ld). layover_summary i ld)
          (zip [0 ..< length layover_data_list] layover_data_list))"

definition analyze_batch_layover_feasibility ::
  "gemini option \<Rightarrow> (string \<Rightarrow> pyval option) \<Rightarrow> layover_data list \<Rightarrow> prompt list \<Rightarrow>
   pydict \<times> prompt list" where
  "analyze_batch_layover_feasibility gemini_model loads layover_data_list calls =
     (if layover_data_list = [] then ([], calls)
      else
        (let prompt0 = batch_prompt layover_data_list
         in case gemini_model of
              None \<Rightarrow> ([], calls)
            | Some g \<Rightarrow>
                (case generate_content g prompt0 calls of
                   (Raises, calls1) \<Rightarrow> ([], calls1)
                 | (Text t, calls1) \<Rightarrow>
                     (case loads (clean_batch_response t) of
                        None \<Rightarrow> ([], calls1)
                      | Some (PDict batch_results) \<Rightarrow> (batch_results, calls1)
                      | Some _ \<Rightarrow> ([], calls1)))))"

text \<open>
  \<open>LayoverAnalysisAgent._create_fallback_batch_analysis\<close>. Its body calls
  \<open>self._fallback_parse_duration\<close>; the attribute lookup is a parameter here, None when
  the object has no such attribute, and the lookup then raises AttributeError, which
  nothing in the method catches.
\<close>

definition fallback_entry :: "int \<Rightarrow> pyval" where
  "fallback_entry duration_minutes =
     (let (risk_level, risk_score, feasibility) =
            (if duration_minutes \<ge> 120 then (''low'', 30 :: int, ''Comfortable connection time'')
             else if duration_minutes \<ge> 60 then (''medium'', 50, ''Adequate connection time'')
             else (''high'', 75, ''Tight connection time''))
      in PDict
           [(''risk_level'', PStr risk_level),
            (''risk_score'', PInt risk_score),
            (''overall_feasibility'', PStr feasibility),
            (''minimum_connection_time'', PInt 60),
            (''buffer_analysis'', PDict [(''buffer_adequacy'', PStr ''unknown'')]),
            (''recommendations'', PList [PStr ''Monitor flight status'', PStr ''Allow extra time'']),
            (''risk_factors'', PList [PStr ''Fallback analysis used'']),
            (''contextual_analysis'', PDict [(''airport_specific'', PStr ''Fallback analysis'')])])"

fun fallback_loop ::
  "(string \<Rightarrow> int) option \<Rightarrow> layover_data list \<Rightarrow> pydict \<Rightarrow> py_error + pydict" where
  "fallback_loop parse [] results = Inr results"
| "fallback_loop parse (ld # rest) results =
     (let airport_code = opt_or (ld_airport_code ld) ''Unknown'';
          duration_str = opt_or (ld_duration_str ld) ''1h''
      in case parse of
           None \<Rightarrow> Inl (AttributeError ''_fallback_parse_duration'')
         | Some fallback_parse_duration \<Rightarrow>
             fallback_loop parse rest
               (dict_set results airport_code (fallback_entry (fallback_parse_duration duration_str))))"

definition create_fallback_batch_analysis_with ::
  "(string \<Rightarrow> int) option \<Rightarrow> layover_data list \<Rightarrow> py_error + pydict" where
  "create_fallback_batch_analysis_with parse layover_data_list =
     fallback_loop parse layover_data_list []"

definition LayoverAnalysisAgent_fallback_parse_duration :: "(string \<Rightarrow> int) option" where
  \<comment> \<open>The class defines \<open>__init__\<close>, \<open>analyze_layover_feasibility\<close>,
      \<open>_parse_duration_with_ai\<close>, \<open>_get_ai_layover_analysis\<close>,
      \<open>get_airport_connection_insights\<close>, \<open>suggest_optimal_layover_time\<close>,
      \<open>analyze_batch_layover_feasibility\<close> and \<open>_create_fallback_batch_analysis\<close>, has no
      base class, and sets only \<open>gemini_model\<close> on the object.\<close>
  "LayoverAnalysisAgent_fallback_parse_duration = None"

definition create_fallback_batch_analysis :: "layover_data list \<Rightarrow> py_error + pydict" where
  "create_fallback_batch_analysis layover_data_list =
     create_fallback_batch_analysis_with LayoverAnalysisAgent_fallback_parse_duration
       layover_data_list"

section \<open>Weather intelligence agent\<close>

text \<open>
  The answer of \<open>requests.get\<close>: it raises a \<open>RequestException\<close> with a message, or
  returns a response. \<open>json_body\<close> is what \<open>response.json()\<close> gives: \<open>Inl\<close> is the message
  of its decode error, which \<open>requests\<close> raises as a \<open>RequestException\<close> too.
\<close>

record 'a http_response =
  status_code :: nat
  reason :: string
  url :: string
  json_body :: "string + 'a"

datatype 'a http_outcome = RequestFailed string | Responded "'a http_response"

definition raise_for_status :: "'a http_response \<Rightarrow> string option" where
  \<comment> \<open>The message of the \<open>HTTPError\<close> that \<open>response.raise_for_status()\<close> raises.\<close>
  "raise_for_status r =
     (if 400 \<le> status_code r \<and> status_code r < 500
      then Some (str_nat (status_code r) @ '' Client Error: '' @ reason r @ '' for url: '' @ url r)
      else if 500 \<le> status_code r \<and> status_code r < 600
      then Some (str_nat (status_code r) @ '' Server Error: '' @ reason r @ '' for url: '' @ url r)
      else None)"









section \<open>Data analyst agent: the provider's payload\<close>

text \<open>
  The flight search payload with the field types of the provider's schema; None is a
  missing key. A payload whose field holds a value of another type (a null duration, a
  segment that is not an object) is outside these types.
\<close>

record airport_ref =
  ap_id :: "string option"
  ap_name :: "string option"
  ap_time :: "string option"

record segment =
  seg_departure_airport :: "airport_ref option"
  seg_arrival_airport :: "airport_ref option"
  seg_airline :: "string option"
  seg_flight_number :: "string option"
  seg_duration :: "int option"
  seg_airplane :: "string option"
  seg_aircraft :: "string option"
  seg_aircraft_type :: "string option"

record layover_entry =
  lo_duration :: "int option"
  lo_id :: "string option"
  lo_name :: "string option"
  lo_overnight :: "bool option"

record flight_payload =
  fp_flights :: "segment list option"
  fp_layovers :: "layover_entry list option"
  fp_total_duration :: "int option"
  fp_price :: "int option"
  fp_type :: "string option"

record serpapi_data =
  sd_best_flights :: "flight_payload list option"
  sd_other_flights :: "flight_payload list option"
  sd_flights :: "pyval option"
  sd_rest :: pydict

text \<open>The normalized record and its parts (the dicts that \<open>_parse_flight_info\<close> builds).\<close>

record airport_out =
  ao_code :: string
  ao_name :: string
  ao_city :: string

record endpoint =
  ep_airport :: airport_out
  ep_time :: string

record layover_info =
  li_airport :: string
  li_airport_name :: string
  li_city :: string
  li_duration :: string
  li_arrival_time :: string
  li_departure_time :: string
  li_overnight :: bool

record layover_out =
  lv_airport :: string
  lv_airport_name :: string
  lv_city :: string
  lv_duration :: string
  lv_arrival_time :: string
  lv_departure_time :: string
  lv_travel_date :: string

record connection =
  cn_id :: string
  cn_flight_number :: string
  cn_aircraft :: string
  cn_duration :: string
  cn_departure :: endpoint
  cn_arrival :: endpoint
  cn_layoverInfo :: "layover_info option"

record flight_info =
  fi_airline_name :: string
  fi_airline_code :: string
  fi_flight_number :: string
  fi_origin :: string
  fi_destination :: string
  fi_origin_airport_code :: string
  fi_destination_airport_code :: string
  fi_departure_time :: string
  fi_arrival_time :: string
  fi_duration :: string
  fi_price :: int
  fi_aircraft :: string
  fi_layovers :: "layover_out list"
  fi_connections :: "connection list"
  fi_flights :: "segment list"
  fi_number_of_stops :: nat
  fi_total_duration :: int
  fi_date :: string
  fi_data_source :: string
  fi_type :: string

record route_info =
  ri_origin :: string
  ri_destination :: string
  ri_date :: string
  ri_connections :: pyval

record route_result =
  rr_success :: bool
  rr_message :: "string option"
  rr_flights :: "flight_info list"
  rr_route_info :: "route_info option"

section \<open>Data analyst agent: times and cities\<close>

text \<open>
  \<open>DataAnalystAgent._format_serpapi_time\<close>. \<open>clock\<close> stands for
  \<open>datetime.strptime(time_str, "%Y-%m-%d %H:%M").strftime("%I:%M %p")\<close>, None when
  \<open>strptime\<close> raises.
\<close>

definition format_serpapi_time :: "(string \<Rightarrow> string option) \<Rightarrow> string \<Rightarrow> string" where
  "format_serpapi_time clock time_str =
     (if time_str = [] \<or> time_str = ''Unknown'' then ''Unknown''
      else case clock time_str of
             Some t \<Rightarrow> dropWhile (\<lambda>c. c = CHR ''0'') t
           | None \<Rightarrow> time_str)"

definition airport_city_mapping :: "(string \<times> string) list" where
  "airport_city_mapping =
     [(''JFK'', ''New York''), (''SFO'', ''San Francisco''), (''LAX'', ''Los Angeles''),
      (''ORD'', ''Chicago''), (''DFW'', ''Dallas''), (''ATL'', ''Atlanta''),
      (''DEN'', ''Denver''), (''SEA'', ''Seattle''), (''LAS'', ''Las Vegas''),
      (''IAD'', ''Washington''), (''DCA'', ''Washington''), (''LGA'', ''New York''),
      (''BWI'', ''Baltimore''), (''MDW'', ''Chicago''), (''SAN'', ''San Diego''),
      (''TPA'', ''Tampa''), (''PDX'', ''Portland''), (''AUS'', ''Austin''),
      (''CLT'', ''Charlotte''), (''MSP'', ''Minneapolis''), (''DTW'', ''Detroit''),
      (''BOS'', ''Boston''), (''FLL'', ''Fort Lauderdale''), (''SJC'', ''San Jose''),
      (''HNL'', ''Honolulu''), (''ANC'', ''Anchorage''), (''MIA'', ''Miami''),
      (''MCO'', ''Orlando''), (''PHL'', ''Philadelphia''), (''IAH'', ''Houston''),
      (''PHX'', ''Phoenix''), (''EWR'', ''Newark''), (''STL'', ''St. Louis''),
      (''DAL'', ''Dallas''), (''BNA'', ''Nashville''), (''MCI'', ''Kansas City''),
      (''CVG'', ''Cincinnati''), (''SLC'', ''Salt Lake City''), (''CLE'', ''Cleveland''),
      (''SMF'', ''Sacramento''), (''OAK'', ''Oakland''), (''SNA'', ''Santa Ana''),
      (''RDU'', ''Raleigh''), (''IND'', ''Indianapolis''), (''CMH'', ''Columbus''),
      (''JAX'', ''Jacksonville''), (''RSW'', ''Fort Myers''), (''COS'', ''Colorado Springs''),
      (''PIT'', ''Pittsburgh''), (''BUF'', ''Buffalo''), (''BUR'', ''Burbank''),
      (''ABQ'', ''Albuquerque''), (''LGB'', ''Long Beach''), (''ONT'', ''Ontario''),
      (''OGG'', ''Kahului''), (''KOA'', ''Kona''), (''MKE'', ''Milwaukee''),
      (''OMA'', ''Omaha''), (''OKC'', ''Oklahoma City''), (''TUL'', ''Tulsa''),
      (''ICT'', ''Wichita''), (''DSM'', ''Des Moines''), (''ROC'', ''Rochester''),
      (''ALB'', ''Albany''), (''SYR'', ''Syracuse''), (''PVD'', ''Providence''),
      (''BDL'', ''Hartford''), (''PWM'', ''Portland''), (''BGR'', ''Bangor''),
      (''MHT'', ''Manchester''), (''BTV'', ''Burlington''), (''GRR'', ''Grand Rapids''),
      (''FNT'', ''Flint''), (''LAN'', ''Lansing''), (''MSN'', ''Madison''),
      (''GRB'', ''Green Bay''), (''FAR'', ''Fargo''), (''BIS'', ''Bismarck''),
      (''FSD'', ''Sioux Falls''), (''RAP'', ''Rapid City''), (''BIL'', ''Billings''),
      (''MSO'', ''Missoula''), (''GTF'', ''Great Falls''), (''BOI'', ''Boise''),
      (''GEG'', ''Spokane''), (''FAI'', ''Fairbanks''), (''JNU'', ''Juneau'')]"

definition extract_city_from_airport_code :: "string \<Rightarrow> string" where
  "extract_city_from_airport_code airport_code =
     (case map_of airport_city_mapping airport_code of Some c \<Rightarrow> c | None \<Rightarrow> airport_code)"

definition extract_city_from_airport_name :: "string \<Rightarrow> string" where
  "extract_city_from_airport_name airport_name =
     (if airport_name = [] \<or> airport_name = ''Unknown'' then ''Unknown''
      else
        (let city =
               foldl (\<lambda>city suffix.
                        if endswith city suffix
                        then py_strip (take (length city - length suffix) city) else city)
                 airport_name
                 [''International Airport'', ''International'', ''Airport'', ''Regional'',
                  ''Municipal'', ''Field'']
         in if city \<noteq> [] then city else ''Unknown''))"

section \<open>Data analyst agent: normalizing one flight\<close>

definition empty_airport :: airport_ref where
  \<comment> \<open>The \<open>{}\<close> default of \<open>segment.get('departure_airport', {})\<close>.\<close>
  "empty_airport = \<lparr>ap_id = None, ap_name = None, ap_time = None\<rparr>"

definition airport_or_empty :: "airport_ref option \<Rightarrow> airport_ref" where
  "airport_or_empty a = (case a of Some r \<Rightarrow> r | None \<Rightarrow> empty_airport)"

definition make_endpoint :: "(string \<Rightarrow> string option) \<Rightarrow> airport_ref \<Rightarrow> endpoint" where
  "make_endpoint clock a =
     \<lparr>ep_airport =
        \<lparr>ao_code = opt_or (ap_id a) ''Unknown'',
         ao_name = opt_or (ap_name a) ''Unknown'',
         ao_city = extract_city_from_airport_code (opt_or (ap_id a) ''Unknown'')\<rparr>,
      ep_time = format_serpapi_time clock (opt_or (ap_time a) ''Unknown'')\<rparr>"

definition provided_layover ::
  "(string \<Rightarrow> string option) \<Rightarrow> segment list \<Rightarrow> nat \<Rightarrow> layover_entry \<Rightarrow> layover_info" where
  \<comment> \<open>Lines 530 to 568: the layover built from the provider's entry for gap \<open>i\<close>.\<close>
  "provided_layover clock flights i layover_data =
     (let segment_arrival = airport_or_empty (seg_arrival_airport (flights ! i));
          d0 = (case lo_duration layover_data of Some d \<Rightarrow> d | None \<Rightarrow> 0);
          layover_duration_minutes = (if d0 \<le> 0 then 90 else d0);
          layover_airport_code = opt_or (lo_id layover_data) [];
          layover_airport_name = opt_or (lo_name layover_data) [];
          city0 = extract_city_from_airport_code layover_airport_code;
          layover_city =
            (if city0 = layover_airport_code \<and> layover_airport_name \<noteq> []
             then extract_city_from_airport_name layover_airport_name else city0)
      in \<lparr>li_airport = (if layover_airport_code \<noteq> [] then layover_airport_code else ''Unknown''),
          li_airport_name =
            (if layover_airport_name \<noteq> [] then layover_airport_name else ''Unknown Airport''),
          li_city = (if layover_city \<noteq> [] then layover_city else ''Unknown City''),
          li_duration = format_duration_from_minutes layover_duration_minutes,
          li_arrival_time = format_serpapi_time clock (opt_or (ap_time segment_arrival) []),
          li_departure_time =
            format_serpapi_time clock
              (opt_or (ap_time (airport_or_empty (seg_departure_airport (flights ! (i + 1))))) []),
          li_overnight = (case lo_overnight layover_data of Some b \<Rightarrow> b | None \<Rightarrow> False)\<rparr>)"

definition synthesized_layover ::
  "(string \<Rightarrow> string option) \<Rightarrow> segment list \<Rightarrow> nat \<Rightarrow> layover_info" where
  \<comment> \<open>Lines 584 to 599: the layover made up for a gap with no provider entry.\<close>
  "synthesized_layover clock flights i =
     (let segment_arrival = airport_or_empty (seg_arrival_airport (flights ! i));
          next_departure = airport_or_empty (seg_departure_airport (flights ! (i + 1)))
      in \<lparr>li_airport = opt_or (ap_id next_departure) ''Unknown'',
          li_airport_name = opt_or (ap_name next_departure) ''Unknown Airport'',
          li_city = extract_city_from_airport_code (opt_or (ap_id next_departure) ''Unknown''),
          li_duration = ''Unknown'',
          li_arrival_time = format_serpapi_time clock (opt_or (ap_time segment_arrival) []),
          li_departure_time = format_serpapi_time clock (opt_or (ap_time next_departure) []),
          li_overnight = False\<rparr>)"

definition layover_for ::
  "(string \<Rightarrow> string option) \<Rightarrow> segment list \<Rightarrow> layover_entry list \<Rightarrow> nat \<Rightarrow>
   layover_info option" where
  \<comment> \<open>The \<open>if\<close>/\<open>elif\<close> of lines 528 and 584.\<close>
  "layover_for clock flights serpapi_layovers i =
     (if i + 1 < length flights \<and> i < length serpapi_layovers
      then Some (provided_layover clock flights i (serpapi_layovers ! i))
      else if i + 1 < length flights
      then Some (synthesized_layover clock flights i)
      else None)"

definition make_connection ::
  "(string \<Rightarrow> string option) \<Rightarrow> segment list \<Rightarrow> layover_entry list \<Rightarrow> string \<Rightarrow> nat \<Rightarrow>
   connection" where
  \<comment> \<open>One pass of the loop of lines 488 to 612, for segment \<open>i\<close>.\<close>
  "make_connection clock flights serpapi_layovers airline_name i =
     (let segment0 = flights ! i;
          segment_duration = (case seg_duration segment0 of Some d \<Rightarrow> d | None \<Rightarrow> 0);
          segment_aircraft =
            (case seg_airplane segment0 of
               Some a \<Rightarrow> a
             | None \<Rightarrow> opt_or (seg_aircraft segment0) ''Unknown'');
          segment_flight_number = opt_or (seg_flight_number segment0) ''Unknown'';
          segment_airline_code =
            extract_airline_code segment_flight_number (opt_or (seg_airline segment0) airline_name);
          segment_clean_number = clean_flight_number segment_flight_number segment_airline_code
      in \<lparr>cn_id = ''segment_'' @ str_nat i,
          cn_flight_number = segment_airline_code @ segment_clean_number,
          cn_aircraft = segment_aircraft,
          cn_duration = format_duration_from_minutes segment_duration,
          cn_departure = make_endpoint clock (airport_or_empty (seg_departure_airport segment0)),
          cn_arrival = make_endpoint clock (airport_or_empty (seg_arrival_airport segment0)),
          cn_layoverInfo = layover_for clock flights serpapi_layovers i\<rparr>)"

definition layover_record :: "string \<Rightarrow> layover_info \<Rightarrow> layover_out" where
  \<comment> \<open>The entry appended to \<open>layovers\<close> beside each \<open>layoverInfo\<close>.\<close>
  "layover_record date0 li =
     \<lparr>lv_airport = li_airport li, lv_airport_name = li_airport_name li, lv_city = li_city li,
      lv_duration = li_duration li, lv_arrival_time = li_arrival_time li,
      lv_departure_time = li_departure_time li, lv_travel_date = date0\<rparr>"

text \<open>
  \<open>DataAnalystAgent._parse_flight_info\<close>. The validation loop of lines 419 to 427 only
  prints. On the payload type above nothing in the body raises, so the result is None
  only for a payload without segments.
\<close>

definition parse_flight_info ::
  "(string \<Rightarrow> string option) \<Rightarrow> flight_payload \<Rightarrow> string \<Rightarrow> string \<Rightarrow> string \<Rightarrow>
   flight_info option" where
  "parse_flight_info clock flight_data origin destination date0 =
     (let flights = (case fp_flights flight_data of Some fs \<Rightarrow> fs | None \<Rightarrow> []) in
      if flights = [] then None
      else
        (let first_flight = hd flights;
             airline_name = opt_or (seg_airline first_flight) ''Unknown'';
             flight_number = opt_or (seg_flight_number first_flight) ''Unknown'';
             airline_code = extract_airline_code flight_number airline_name;
             clean_number = clean_flight_number flight_number airline_code;
             formatted_flight_number = airline_code @ clean_number;
             departure_airport = airport_or_empty (seg_departure_airport first_flight);
             arrival_airport = airport_or_empty (seg_arrival_airport (last flights));
             departure_time = format_serpapi_time clock (opt_or (ap_time departure_airport) ''Unknown'');
             arrival_time = format_serpapi_time clock (opt_or (ap_time arrival_airport) ''Unknown'');
             total_duration_minutes =
               (case fp_total_duration flight_data of Some d \<Rightarrow> d | None \<Rightarrow> 0);
             duration =
               (if total_duration_minutes > 0
                then format_duration_from_minutes total_duration_minutes else ''Unknown'');
             price_info = (case fp_price flight_data of Some p \<Rightarrow> p | None \<Rightarrow> 0);
             aircraft =
               (case seg_airplane first_flight of
                  Some a \<Rightarrow> a
                | None \<Rightarrow>
                    (case seg_aircraft first_flight of
                       Some a \<Rightarrow> a
                     | None \<Rightarrow> opt_or (seg_aircraft_type first_flight) ''Unknown''));
             serpapi_layovers = (case fp_layovers flight_data of Some ls \<Rightarrow> ls | None \<Rightarrow> []);
             has_layovers = (length serpapi_layovers > 0 \<or> length flights > 1);
             connections =
               (if has_layovers
                then map (make_connection clock flights serpapi_layovers airline_name)
                       [0 ..< length flights]
                else []);
             layovers =
               concat (map (\<lambda>c. case cn_layoverInfo c of
                                   Some li \<Rightarrow> [layover_record date0 li]
                                 | None \<Rightarrow> []) connections)
         in Some
              \<lparr>fi_airline_name = airline_name,
               fi_airline_code = airline_code,
               fi_flight_number = formatted_flight_number,
               fi_origin = origin,
               fi_destination = destination,
               fi_origin_airport_code = origin,
               fi_destination_airport_code = destination,
               fi_departure_time = departure_time,
               fi_arrival_time = arrival_time,
               fi_duration = duration,
               fi_price = price_info,
               fi_aircraft = aircraft,
               fi_layovers = layovers,
               fi_connections = connections,
               fi_flights = flights,
               fi_number_of_stops = length layovers,
               fi_total_duration = total_duration_minutes,
               fi_date = date0,
               fi_data_source = ''SerpAPI'',
               fi_type = opt_or (fp_type flight_data) ''One way''\<rparr>))"

section \<open>Data analyst agent: route search\<close>

definition rate_limit_payload :: serpapi_data where
  \<comment> \<open>The dict returned at lines 312 to 316.\<close>
  "rate_limit_payload =
     \<lparr>sd_best_flights = None, sd_other_flights = None, sd_flights = None,
      sd_rest =
        [(''error'', PStr ''SerpAPI rate limit exceeded''),
         (''message'', PStr ''Please upgrade your SerpAPI plan or try again later''),
         (''account_status'', PStr ''Rate limit exceeded'')]\<rparr>"

definition on_request_exception :: "string \<Rightarrow> serpapi_data option" where
  \<comment> \<open>The handler of lines 307 to 318 on the exception's text.\<close>
  "on_request_exception error_message =
     (if py_in ''429'' error_message \<or> py_in ''Too Many Requests'' error_message
      then Some rate_limit_payload else None)"

text \<open>
  \<open>DataAnalystAgent._call_serpapi_flights\<close>; its argument is the answer of the provider
  to the request. None is the source's \<open>None\<close>.
\<close>

definition call_serpapi_flights :: "serpapi_data http_outcome \<Rightarrow> serpapi_data option" where
  "call_serpapi_flights http =
     (case http of
        RequestFailed msg \<Rightarrow> on_request_exception msg
      | Responded r \<Rightarrow>
          (case raise_for_status r of
             Some msg \<Rightarrow> on_request_exception msg
           | None \<Rightarrow>
               (case json_body r of
                  Inl msg \<Rightarrow> on_request_exception msg
                | Inr data \<Rightarrow>
                    (if (case sd_best_flights data of Some fs \<Rightarrow> fs \<noteq> [] | None \<Rightarrow> False)
                     then Some data
                     else if (case sd_other_flights data of Some fs \<Rightarrow> fs \<noteq> [] | None \<Rightarrow> False)
                     then Some data
                     else if (case sd_flights data of Some v \<Rightarrow> truthy v | None \<Rightarrow> False)
                     then Some data
                     else None))))"

text \<open>\<open>DataAnalystAgent._extract_flight_data\<close>.\<close>

definition extract_flight_data ::
  "(string \<Rightarrow> string option) \<Rightarrow> serpapi_data \<Rightarrow> string \<Rightarrow> string \<Rightarrow> string \<Rightarrow> flight_info list" where
  "extract_flight_data clock serpapi_data0 origin destination date0 =
     (let best_flights = (case sd_best_flights serpapi_data0 of Some fs \<Rightarrow> fs | None \<Rightarrow> []);
          other_flights = (case sd_other_flights serpapi_data0 of Some fs \<Rightarrow> fs | None \<Rightarrow> []);
          all_flights = best_flights @ other_flights
      in if all_flights = [] then []
         else concat (map (\<lambda>flight_data.
                             case parse_flight_info clock flight_data origin destination date0 of
                               Some flight_info0 \<Rightarrow> [flight_info0]
                             | None \<Rightarrow> []) all_flights))"

definition is_empty_dict :: "serpapi_data \<Rightarrow> bool" where
  \<comment> \<open>The dict has no key at all.\<close>
  "is_empty_dict d =
     (Option.is_none (sd_best_flights d) \<and> Option.is_none (sd_other_flights d) \<and>
      Option.is_none (sd_flights d) \<and> sd_rest d = [])"

text \<open>
  \<open>DataAnalystAgent.analyze_route\<close>; \<open>serpapi\<close> is the provider's answer to the search for
  a route and date.
\<close>

definition analyze_route ::
  "(string \<Rightarrow> string \<Rightarrow> string \<Rightarrow> serpapi_data http_outcome) \<Rightarrow> (string \<Rightarrow> string option) \<Rightarrow>
   string \<Rightarrow> string \<Rightarrow> string \<Rightarrow> pyval \<Rightarrow> route_result" where
  "analyze_route serpapi clock origin destination date0 connections =
     (let no_flights =
            \<lparr>rr_success = False, rr_message = Some ''No flights found for this route'',
             rr_flights = [], rr_route_info = None\<rparr>
      in case call_serpapi_flights (serpapi origin destination date0) of
           None \<Rightarrow> no_flights
         | Some flight_data \<Rightarrow>
             (if is_empty_dict flight_data then no_flights
              else
                (let structured_flights =
                       extract_flight_data clock flight_data origin destination date0;
                     structured_flights =
                       (if length structured_flights > 10
                        then take 10 structured_flights else structured_flights)
                 in \<lparr>rr_success = True, rr_message = None, rr_flights = structured_flights,
                     rr_route_info =
                       Some \<lparr>ri_origin = origin, ri_destination = destination, ri_date = date0,
                             ri_connections =
                               (if truthy connections then connections else PList [])\<rparr>\<rparr>)))"

section \<open>Concrete inputs\<close>

text \<open>Inputs at which the theorems below are instantiated.\<close>

definition sample_layover :: layover_data where
  "sample_layover = \<lparr>ld_airport_code = Some ''ORD'', ld_duration_str = Some ''1h'',
     ld_weather_risk = None, ld_airport_complexity = None, ld_arrival_time = None,
     ld_travel_date = None\<rparr>"


definition sample_segment :: segment where
  "sample_segment =
     \<lparr>seg_departure_airport = None, seg_arrival_airport = None, seg_airline = Some ''JetBlue'',
      seg_flight_number = Some ''B6 615'', seg_duration = Some 120, seg_airplane = None,
      seg_aircraft = None, seg_aircraft_type = None\<rparr>"

definition sample_payload :: flight_payload where
  "sample_payload =
     \<lparr>fp_flights = Some [sample_segment, sample_segment, sample_segment],
      fp_layovers =
        Some [\<lparr>lo_duration = Some 0, lo_id = Some ''ORD'', lo_name = Some ''Chicago'',
               lo_overnight = None\<rparr>],
      fp_total_duration = Some 500, fp_price = Some 300, fp_type = None\<rparr>"

definition int_unicode_none :: "string \<Rightarrow> int option" where
  \<comment> \<open>A stand-in for \<open>int\<close> on text beyond ASCII, for inputs that have no such text.\<close>
  "int_unicode_none s = None"

definition beyond_limit_minutes :: int where
  "beyond_limit_minutes = 60 * 10 ^ 4300"

section \<open>Facts about the text operations\<close>





lemma backquote_not_space: "\<not> py_isspace (CHR 0x60)"
  by (simp add: py_isspace_def)





section \<open>Connection type\<close>

lemma parse_some_model:
  "parse_duration_with_ai gm s calls = (Some d, calls1) \<Longrightarrow> \<exists>g. gm = Some g"
  by (cases gm) (auto simp: parse_duration_with_ai_def)

lemma analyze_connection_type:
  assumes "fst (parse_duration_with_ai gm s calls) = Some d"
      and "map_of (fst (analyze_layover_feasibility gm loads now s a at td wd calls)) ''connection_type'' = Some v"
  shows "v = PStr (connection_type d)"
proof -
  obtain calls1 where p: "parse_duration_with_ai gm s calls = (Some d, calls1)"
    using assms(1) by (cases "parse_duration_with_ai gm s calls") auto
  show ?thesis
    using assms(2)
    by (auto simp: analyze_layover_feasibility_def p Let_def analysis_error_def
          analysis_exception_def
        split: if_splits prod.splits sum.splits bool.splits)
qed

lemma int_of_str_45: "int_of_str ''45'' = Some 45"
  by code_simp

lemma py_strip_45: "py_strip ''45'' = ''45''"
  by code_simp

text \<open>
  C1. For every integer duration \<open>d\<close> the connection type is exactly one of the four
  tiers: tight below 45, standard from 45 to 119, comfortable from 120 to 359,
  plenty_of_time from 360 on; the tier never goes down as \<open>d\<close> grows; and every payload of
  \<open>analyze_layover_feasibility\<close> that carries a connection type carries this tier of the
  parsed duration.
\<close>

theorem connection_type_step:
  "(connection_type d = ''tight'') = (d < 45) \<and>
   (connection_type d = ''standard'') = (45 \<le> d \<and> d < 120) \<and>
   (connection_type d = ''comfortable'') = (120 \<le> d \<and> d < 360) \<and>
   (connection_type d = ''plenty_of_time'') = (360 \<le> d) \<and>
   (d \<le> e \<longrightarrow> tier_rank (connection_type d) \<le> tier_rank (connection_type e)) \<and>
   (fst (parse_duration_with_ai gm s calls) = Some d \<and>
    map_of (fst (analyze_layover_feasibility gm loads now s a at td wd calls)) ''connection_type'' = Some v
      \<longrightarrow> v = PStr (connection_type d))"
  using analyze_connection_type [of gm s calls d loads now a at td wd v]
  by (simp add: connection_type_def tier_rank_def)

theorem connection_type_step_witness:
  "(44 :: int) \<le> 45 \<and> connection_type 44 = ''tight'' \<and> connection_type 45 = ''standard'' \<and>
   tier_rank (connection_type 44) \<le> tier_rank (connection_type 45) \<and>
   fst (parse_duration_with_ai (Some (\<lambda>calls p. Text ''45'')) ''45m'' []) = Some 45 \<and>
   map_of (fst (analyze_layover_feasibility (Some (\<lambda>calls p. Text ''45'')) (\<lambda>t. None) ''now''
                  ''45m'' ''ORD'' None None (Some []) [])) ''connection_type''
     = Some (PStr ''standard'')"
proof -
  let ?g = "Some (\<lambda>calls p. Text ''45'') :: gemini option"
  have p: "parse_duration_with_ai ?g s calls = (Some 45, calls @ [DurationPrompt s])" for s calls
    by (simp add: parse_duration_with_ai_def generate_content_def int_of_str_45 py_strip_45)
  have m: "map_of (fst (analyze_layover_feasibility ?g (\<lambda>t. None) ''now''
                  ''45m'' ''ORD'' None None (Some []) [])) ''connection_type''
     = Some (PStr (connection_type 45))"
    by (simp add: analyze_layover_feasibility_def p get_ai_layover_analysis_def
          generate_content_def layover_invalid_format_def analysis_error_def dict_get_def Let_def)
  have c: "connection_type 45 = ''standard''" "connection_type 44 = ''tight''"
    by (simp_all add: connection_type_def)
  show ?thesis
    using connection_type_step [where d = 44 and e = 45]
      connection_type_step [where d = 45 and gm = ?g and s = "''45m''"
        and calls = "[]" and loads = "\<lambda>t. None" and now = "''now''" and a = "''ORD''"
        and at = None and td = None and wd = "Some []" and v = "PStr ''standard''"]
    by (simp add: p m c)
qed

section \<open>Duration formatting\<close>

lemma str_nat_digit: "n < 10 \<Longrightarrow> str_nat n = [digit_char n]"
  by (simp add: str_nat.simps)

lemma within_small: "\<bar>i\<bar> < 10 \<Longrightarrow> within_str_limit i"
  by (simp add: within_str_limit_def str_nat_digit)

lemma py_str_int_small: "\<bar>i\<bar> < 10 \<Longrightarrow> py_str_int i = Inr (str_int i)"
  by (simp add: py_str_int_def within_small)

lemma str_nat_power10: "length (str_nat (10 ^ k)) = Suc k"
proof (induction k)
  case 0
  show ?case by (simp add: str_nat_digit)
next
  case (Suc k)
  have "str_nat (10 ^ Suc k) = str_nat (10 ^ k) @ [digit_char (10 ^ Suc k)]"
    by (subst str_nat.simps) simp
  then show ?case using Suc by simp
qed

lemma beyond_limit: "4300 \<le> k \<Longrightarrow> \<not> within_str_limit (10 ^ k)"
proof -
  assume k: "4300 \<le> k"
  have n: "nat (10 ^ k :: int) = 10 ^ k"
    by (simp add: nat_power_eq)
  show ?thesis
    using k by (simp add: within_str_limit_def n str_nat_power10)
qed

lemma format_duration_int:
  "format_duration u (PInt d) =
     (let hours = d div 60; mins = d mod 60 in
      if hours > 0 \<and> \<not> within_str_limit hours then Inr ''0m''
      else if hours > 0 \<and> mins > 0 then Inr (str_int hours @ ''h '' @ str_int mins @ ''m'')
      else if hours > 0 then Inr (str_int hours @ ''h'')
      else Inr (str_int mins @ ''m''))"
  by (simp add: format_duration_def format_duration_body_def py_str_int_def Let_def)

lemma format_call:
  "format_duration_from_minutes_call d =
     (if 0 < d \<and> \<not> within_str_limit (d div 60) \<and> 0 < d div 60 then Inl ValueError
      else Inr (format_duration_from_minutes d))"
  by (simp add: format_duration_from_minutes_call_def format_duration_from_minutes_def
        py_str_int_def Let_def)

lemma outside_limit_positive: "\<not> within_str_limit h \<Longrightarrow> 0 \<le> h \<Longrightarrow> 0 < h"
  by (cases "h = 0") (simp_all add: within_str_limit_def str_nat_digit)

lemma format_duration_agree:
  assumes "0 < d" and "within_str_limit (d div 60)"
  shows "format_duration u (PInt d) = format_duration_from_minutes_call d"
    and "format_duration_from_minutes_call d = Inr (format_duration_from_minutes d)"
  using assms
  by (simp_all add: format_duration_int format_call format_duration_from_minutes_def Let_def)

lemma format_duration_beyond:
  assumes "0 < d" and "\<not> within_str_limit (d div 60)"
  shows "format_duration u (PInt d) = Inr ''0m''"
    and "format_duration_from_minutes_call d = Inl ValueError"
proof -
  have "0 \<le> d div 60" using assms(1) by simp
  then have h: "0 < d div 60" using assms(2) outside_limit_positive by blast
  show "format_duration u (PInt d) = Inr ''0m''"
    using assms h by (simp add: format_duration_int Let_def)
  show "format_duration_from_minutes_call d = Inl ValueError"
    using assms h by (simp add: format_call)
qed

lemma format_duration_caught:
  "py_int u v = Inl ValueError \<or> py_int u v = Inl TypeError \<Longrightarrow> format_duration u v = Inr ''0m''"
  by (auto simp: format_duration_def format_duration_body_def)

lemma format_duration_overflow:
  "py_int u v = Inl OverflowError \<Longrightarrow> format_duration u v = Inl OverflowError"
  by (simp add: format_duration_def format_duration_body_def)

lemma format_duration_converted:
  "py_int u v = Inr i \<Longrightarrow> format_duration u v = format_duration u (PInt i)"
  by (simp add: format_duration_def format_duration_body_def)

lemma format_examples:
  "format_duration u (PInt 125) = Inr ''2h 5m''"
  "format_duration u (PInt 60) = Inr ''1h''"
  "format_duration u (PInt 5) = Inr ''5m''"
  "format_duration u (PInt 0) = Inr ''0m''"
  "format_duration_from_minutes_call 125 = Inr ''2h 5m''"
  "format_duration_from_minutes_call 60 = Inr ''1h''"
  "format_duration_from_minutes_call 5 = Inr ''5m''"
  by (simp_all add: format_duration_int format_call format_duration_from_minutes_def
        within_small str_int_def str_nat_digit digit_char_def)

lemma int_of_str_125: "is_ascii ''125''" "int_of_str ''125'' = Some 125"
  by code_simp+

text \<open>
  C9, as stated, fails for text input: the legacy formatter converts its argument with
  \<open>int\<close>, so the text \<open>125\<close>, which is not an integer, is formatted like the integer 125
  and does not give \<open>0m\<close>.
\<close>

theorem format_duration_text_counterexample:
  "py_int int_unicode_none (PStr ''125'') = Inr 125 \<and>
   format_duration int_unicode_none (PStr ''125'') = Inr ''2h 5m'' \<and>
   format_duration int_unicode_none (PStr ''125'') \<noteq> Inr ''0m''"
proof -
  have i: "py_int int_unicode_none (PStr ''125'') = Inr 125"
    by (simp add: int_of_str_125)
  have f: "format_duration int_unicode_none (PStr ''125'') = Inr ''2h 5m''"
    by (simp only: format_duration_converted [OF i] format_examples)
  show ?thesis
    by (simp only: i f) simp
qed

text \<open>
  C9, amended. On every positive integer whose hours have at most 4300 decimal digits
  the two formatters return the same text (125 gives \<open>2h 5m\<close>, 60 gives \<open>1h\<close>, 5 gives
  \<open>5m\<close>); beyond that limit of the interpreter the legacy formatter returns \<open>0m\<close> and
  \<open>_format_duration_from_minutes\<close> raises ValueError. \<open>_format_duration_from_minutes\<close>
  returns \<open>Unknown\<close> for every \<open>d \<le> 0\<close>. The legacy \<open>_format_duration\<close> returns \<open>0m\<close> for
  0 and for every input on which \<open>int\<close> raises ValueError or TypeError; an input that
  \<open>int\<close> converts is formatted like the resulting integer; and the OverflowError that
  \<open>int\<close> raises on an infinite float is not caught.
\<close>

theorem format_duration_variants:
  "(0 < d \<and> within_str_limit (d div 60) \<longrightarrow>
      format_duration u (PInt d) = format_duration_from_minutes_call d \<and>
      format_duration_from_minutes_call d = Inr (format_duration_from_minutes d)) \<and>
   (0 < d \<and> \<not> within_str_limit (d div 60) \<longrightarrow>
      format_duration u (PInt d) = Inr ''0m'' \<and>
      format_duration_from_minutes_call d = Inl ValueError) \<and>
   format_duration u (PInt 125) = Inr ''2h 5m'' \<and>
   format_duration_from_minutes_call 125 = Inr ''2h 5m'' \<and>
   format_duration u (PInt 60) = Inr ''1h'' \<and>
   format_duration_from_minutes_call 60 = Inr ''1h'' \<and>
   format_duration u (PInt 5) = Inr ''5m'' \<and>
   format_duration_from_minutes_call 5 = Inr ''5m'' \<and>
   (d \<le> 0 \<longrightarrow> format_duration_from_minutes_call d = Inr ''Unknown'') \<and>
   format_duration u (PInt 0) = Inr ''0m'' \<and>
   (py_int u v = Inl ValueError \<or> py_int u v = Inl TypeError \<longrightarrow>
      format_duration u v = Inr ''0m'') \<and>
   (py_int u v = Inr i \<longrightarrow> format_duration u v = format_duration u (PInt i)) \<and>
   (py_int u v = Inl OverflowError \<longrightarrow> format_duration u v = Inl OverflowError)"
proof -
  have a: "0 < d \<and> within_str_limit (d div 60) \<longrightarrow>
      format_duration u (PInt d) = format_duration_from_minutes_call d \<and>
      format_duration_from_minutes_call d = Inr (format_duration_from_minutes d)"
    using format_duration_agree by blast
  have b: "0 < d \<and> \<not> within_str_limit (d div 60) \<longrightarrow>
      format_duration u (PInt d) = Inr ''0m'' \<and>
      format_duration_from_minutes_call d = Inl ValueError"
    using format_duration_beyond by blast
  have c: "d \<le> 0 \<longrightarrow> format_duration_from_minutes_call d = Inr ''Unknown''"
    by (simp add: format_duration_from_minutes_call_def)
  have e: "py_int u v = Inl ValueError \<or> py_int u v = Inl TypeError \<longrightarrow>
      format_duration u v = Inr ''0m''"
    using format_duration_caught by blast
  have f: "py_int u v = Inr i \<longrightarrow> format_duration u v = format_duration u (PInt i)"
    using format_duration_converted by blast
  have g: "py_int u v = Inl OverflowError \<longrightarrow> format_duration u v = Inl OverflowError"
    using format_duration_overflow by blast
  show ?thesis
    using a b c e f g by (simp only: format_examples simp_thms)
qed

lemma beyond_limit_minutes_facts:
  "0 < beyond_limit_minutes" "\<not> within_str_limit (beyond_limit_minutes div 60)"
proof -
  have p: "(0::int) < 10 ^ 4300" by (rule zero_less_power) simp
  have "(0::int) < 60" by simp
  then have "(0::int) < 60 * 10 ^ 4300" using p by (rule mult_pos_pos)
  then show "0 < beyond_limit_minutes" by (simp only: beyond_limit_minutes_def)
  have "(60 * 10 ^ 4300) div 60 = (10 ^ 4300 :: int)"
    by (rule nonzero_mult_div_cancel_left) simp
  then have e: "beyond_limit_minutes div 60 = 10 ^ 4300"
    by (simp only: beyond_limit_minutes_def)
  have nw: "\<not> within_str_limit (10 ^ 4300)"
    by (rule beyond_limit) simp
  show "\<not> within_str_limit (beyond_limit_minutes div 60)"
    unfolding e by (rule nw)
qed

lemma int_of_str_abc: "is_ascii ''abc''" "int_of_str ''abc'' = None"
  by code_simp+

theorem format_duration_variants_witness:
  "format_duration int_unicode_none (PInt 125) = Inr ''2h 5m'' \<and>
   format_duration_from_minutes_call 0 = Inr ''Unknown'' \<and>
   format_duration int_unicode_none (PStr ''abc'') = Inr ''0m'' \<and>
   format_duration int_unicode_none PNone = Inr ''0m'' \<and>
   format_duration int_unicode_none (PFloat NaN) = Inr ''0m'' \<and>
   format_duration int_unicode_none (PStr ''125'') = format_duration int_unicode_none (PInt 125) \<and>
   format_duration int_unicode_none (PFloat (Finite 25 (- 1))) = format_duration int_unicode_none (PInt 12) \<and>
   format_duration int_unicode_none (PFloat PosInf) = Inl OverflowError \<and>
   format_duration int_unicode_none (PInt beyond_limit_minutes) = Inr ''0m'' \<and>
   format_duration_from_minutes_call beyond_limit_minutes = Inl ValueError"
proof -
  let ?u = int_unicode_none
  have w: "within_str_limit (125 div 60)"
    by (simp add: within_small)
  have a: "py_int ?u (PStr ''abc'') = Inl ValueError"
    by (simp add: int_of_str_abc)
  have b: "py_int ?u (PStr ''125'') = Inr 125"
    by (simp add: int_of_str_125)
  have c: "py_int ?u (PFloat (Finite 25 (- 1))) = Inr 12"
    by (simp add: float_trunc_def)
  note t1 = format_duration_variants [where d = 125 and u = ?u and v = "PStr ''abc''" and i = 0]
  note t2 = format_duration_variants [where d = 0 and u = ?u and v = PNone and i = 0]
  note t3 = format_duration_variants [where d = 0 and u = ?u and v = "PFloat NaN" and i = 0]
  note t4 = format_duration_variants [where d = 0 and u = ?u and v = "PStr ''125''" and i = 125]
  note t5 = format_duration_variants [where d = 0 and u = ?u and v = "PFloat (Finite 25 (- 1))"
      and i = 12]
  note t6 = format_duration_variants [where d = beyond_limit_minutes and u = ?u
      and v = "PFloat PosInf" and i = 0]
  have "format_duration ?u (PInt 125) = Inr ''2h 5m''" using t1 by blast
  moreover have "format_duration_from_minutes_call 0 = Inr ''Unknown''" using t2 by simp
  moreover have "format_duration ?u (PStr ''abc'') = Inr ''0m''" using t1 a by blast
  moreover have "format_duration ?u PNone = Inr ''0m''" using t2 by simp
  moreover have "format_duration ?u (PFloat NaN) = Inr ''0m''" using t3 by simp
  moreover have "format_duration ?u (PStr ''125'') = format_duration ?u (PInt 125)"
    using t4 b by blast
  moreover have "format_duration ?u (PFloat (Finite 25 (- 1))) = format_duration ?u (PInt 12)"
    using t5 c by blast
  moreover have "format_duration ?u (PFloat PosInf) = Inl OverflowError" using t6 by simp
  moreover have "format_duration ?u (PInt beyond_limit_minutes) = Inr ''0m'' \<and>
      format_duration_from_minutes_call beyond_limit_minutes = Inl ValueError"
    using t6 beyond_limit_minutes_facts by blast
  ultimately show ?thesis by blast
qed

section \<open>Weather classifier\<close>

lemma lower_partly: "py_lower ''partly cloudy'' = ''partly cloudy''"
  by code_simp

lemma risk_partly: "deterministic_risk ''partly cloudy'' =
   (''medium'', ''Moderate weather conditions may cause minor delays and require standard precautions.'')"
  by code_simp

text \<open>
  C2. The classifier lower-cases the conditions and tries the high bucket, then the
  medium bucket, then the low bucket, and \<open>partly cloudy\<close> should come out low. The
  medium bucket holds \<open>cloudy\<close>, which occurs in \<open>partly cloudy\<close>, so the code answers
  medium there and the low bucket's \<open>partly cloudy\<close> is never reached.
\<close>

theorem classify_weather_partly_cloudy:
  "classify_weather ''partly cloudy'' =
     risk_entry ''medium''
       ''Moderate weather conditions may cause minor delays and require standard precautions.''"
  by (simp add: classify_weather_def add_deterministic_risk_assessment_def dict_get_def
        dict_set_def lower_partly risk_partly)

lemma classify_weather_thunderstorms:
  "classify_weather ''thunderstorms expected'' =
     risk_entry ''high''
       ''Severe weather conditions may cause significant flight delays and cancellations.''"
proof -
  have l: "py_lower ''thunderstorms expected'' = ''thunderstorms expected''" by code_simp
  have r: "deterministic_risk ''thunderstorms expected'' =
     (''high'', ''Severe weather conditions may cause significant flight delays and cancellations.'')"
    by code_simp
  show ?thesis
    by (simp add: classify_weather_def add_deterministic_risk_assessment_def dict_get_def
        dict_set_def l r)
qed

lemma classify_weather_light_rain:
  "classify_weather ''light rain'' =
     risk_entry ''medium''
       ''Moderate weather conditions may cause minor delays and require standard precautions.''"
proof -
  have l: "py_lower ''light rain'' = ''light rain''" by code_simp
  have r: "deterministic_risk ''light rain'' =
     (''medium'', ''Moderate weather conditions may cause minor delays and require standard precautions.'')"
    by code_simp
  show ?thesis
    by (simp add: classify_weather_def add_deterministic_risk_assessment_def dict_get_def
        dict_set_def l r)
qed

lemma deterministic_risk_order:
  "fst (deterministic_risk c) =
     (if any_term_in [''thunderstorm'', ''storm'', ''heavy rain'', ''heavy snow'', ''fog'', ''ice''] c
      then ''high''
      else if any_term_in [''rain'', ''snow'', ''cloudy'', ''overcast''] c then ''medium''
      else ''low'')"
  by (simp add: deterministic_risk_def)

section \<open>Airline code and flight number\<close>

text \<open>
  C3. The code taken from the flight number \<open>DL1590\<close> should be \<open>DL\<close>, as the comment at
  line 811 says. The pattern takes up to three code characters greedily, digits
  included, so the code returns \<open>DL1\<close>.
\<close>

theorem extract_airline_code_dl1590:
  "extract_airline_code ''DL1590'' ''Delta Air Lines'' = ''DL1''"
  by code_simp

lemma extract_airline_code_b6: "extract_airline_code ''B6 615'' ''JetBlue'' = ''B6''"
  by code_simp

lemma clean_flight_number_as41: "clean_flight_number ''AS 41'' ''AS'' = ''41''"
  by code_simp

section \<open>Batch fallback\<close>

text \<open>
  C8. The batch fallback should return one entry per airport, bucketed by the parsed
  duration. On every list that is not empty the code raises AttributeError instead: the
  first pass of the loop calls \<open>self._fallback_parse_duration\<close>, which the class does not
  define.
\<close>

theorem create_fallback_batch_analysis_raises:
  "create_fallback_batch_analysis (ld # rest) = Inl (AttributeError ''_fallback_parse_duration'')"
  by (simp add: create_fallback_batch_analysis_def create_fallback_batch_analysis_with_def
        LayoverAnalysisAgent_fallback_parse_duration_def)

lemma create_fallback_batch_analysis_empty: "create_fallback_batch_analysis [] = Inr []"
  by (simp add: create_fallback_batch_analysis_def create_fallback_batch_analysis_with_def)

lemma fallback_entry_tiers:
  "dict_get (case fallback_entry d of PDict e \<Rightarrow> e | _ \<Rightarrow> []) ''risk_level'' PNone =
     PStr (if d \<ge> 120 then ''low'' else if d \<ge> 60 then ''medium'' else ''high'') \<and>
   dict_get (case fallback_entry d of PDict e \<Rightarrow> e | _ \<Rightarrow> []) ''risk_score'' PNone =
     PInt (if d \<ge> 120 then 30 else if d \<ge> 60 then 50 else 75)"
  by (simp add: fallback_entry_def dict_get_def)

lemma fallback_loop_with_parser:
  "fallback_loop (Some f) lds results =
     Inr (foldl (\<lambda>r ld. dict_set r (opt_or (ld_airport_code ld) ''Unknown'')
                        (fallback_entry (f (opt_or (ld_duration_str ld) ''1h''))))
            results lds)"
  by (induction lds arbitrary: results) simp_all

section \<open>Rate limit of the flight search\<close>

lemma py_in_empty: "py_in [] s"
  by (induction s) (simp_all add: startswith_def)

lemma py_in_prefix: "py_in p (p @ s)"
  by (cases p) (simp_all add: py_in_empty startswith_def)

lemma str_nat_429: "str_nat 429 = ''429''"
  by (simp add: str_nat.simps digit_char_def)

lemma raise_for_status_429:
  "status_code r = 429 \<Longrightarrow> \<exists>rest. raise_for_status r = Some (''429'' @ rest)"
  by (simp add: raise_for_status_def str_nat_429)

lemma call_serpapi_flights_429:
  assumes "status_code r = 429"
  shows "call_serpapi_flights (Responded r) = Some rate_limit_payload"
proof -
  obtain rest where m: "raise_for_status r = Some (''429'' @ rest)"
    using raise_for_status_429 [OF assms] by blast
  have "py_in ''429'' (''429'' @ rest)" by (rule py_in_prefix)
  then show ?thesis
    by (simp add: call_serpapi_flights_def m on_request_exception_def del: py_in.simps append.simps)
qed

lemma extract_rate_limit: "extract_flight_data clock rate_limit_payload origin destination date0 = []"
  by (simp add: extract_flight_data_def rate_limit_payload_def)

lemma analyze_route_429:
  assumes "serpapi origin destination date0 = Responded r" and "status_code r = 429"
  shows "analyze_route serpapi clock origin destination date0 connections =
     \<lparr>rr_success = True, rr_message = None, rr_flights = [],
      rr_route_info =
        Some \<lparr>ri_origin = origin, ri_destination = destination, ri_date = date0,
              ri_connections = (if truthy connections then connections else PList [])\<rparr>\<rparr>"
proof -
  have e: "\<not> is_empty_dict rate_limit_payload"
    by (simp add: is_empty_dict_def rate_limit_payload_def)
  show ?thesis
    by (simp add: analyze_route_def assms(1) call_serpapi_flights_429 [OF assms(2)] e
          extract_rate_limit)
qed

text \<open>
  C6. A 429 answer of the provider should reach the caller of the route search as a
  rate-limit error. \<open>_call_serpapi_flights\<close> does build the rate-limit payload, but
  \<open>analyze_route\<close> treats it as flight data: the payload is a non-empty dict without
  flights, so the caller gets \<open>success: True\<close> with an empty flight list and no trace of
  the rate limit.
\<close>

theorem analyze_route_rate_limit_lost:
  "call_serpapi_flights
     (Responded \<lparr>status_code = 429, reason = ''Too Many Requests'',
                 url = ''https://serpapi.com/search'', json_body = Inl []\<rparr>)
     = Some rate_limit_payload \<and>
   analyze_route
     (\<lambda>origin destination date0.
        Responded \<lparr>status_code = 429, reason = ''Too Many Requests'',
                   url = ''https://serpapi.com/search'', json_body = Inl []\<rparr>)
     (\<lambda>t. None) ''JFK'' ''LAX'' ''2025-07-12'' PNone
     = \<lparr>rr_success = True, rr_message = None, rr_flights = [],
        rr_route_info =
          Some \<lparr>ri_origin = ''JFK'', ri_destination = ''LAX'', ri_date = ''2025-07-12'',
                ri_connections = PList []\<rparr>\<rparr>"
  using call_serpapi_flights_429 [of "\<lparr>status_code = 429, reason = ''Too Many Requests'',
                 url = ''https://serpapi.com/search'', json_body = Inl []\<rparr>"]
    analyze_route_429 [of "\<lambda>origin destination date0.
        Responded \<lparr>status_code = 429, reason = ''Too Many Requests'',
                   url = ''https://serpapi.com/search'', json_body = Inl []\<rparr>"
      "''JFK''" "''LAX''" "''2025-07-12''" _ "\<lambda>t. None" PNone]
  by simp

section \<open>Layover analysis fails closed\<close>

lemma parse_calls:
  "snd (parse_duration_with_ai gm s calls) =
     (case gm of None \<Rightarrow> calls | Some g \<Rightarrow> calls @ [DurationPrompt s])"
  by (cases gm) (auto simp: parse_duration_with_ai_def generate_content_def split: reply.splits)

lemma parse_unavailable: "fst (parse_duration_with_ai None s calls) = None"
  by (simp add: parse_duration_with_ai_def)

lemma analyze_parse_failed:
  assumes "fst (parse_duration_with_ai gm s calls) = None"
  shows "analyze_layover_feasibility gm loads now s a at td wd calls =
     ([(''error'', PStr (''Unable to parse duration: '' @ s)),
       (''airport_code'', PStr a),
       (''analysis_failed'', PBool True)],
      snd (parse_duration_with_ai gm s calls))"
  using assms
  by (cases "parse_duration_with_ai gm s calls") (simp add: analyze_layover_feasibility_def)

text \<open>
  C4. When the model is unavailable or the duration text cannot be parsed,
  \<open>analyze_layover_feasibility\<close> returns the error payload with
  \<open>analysis_failed: True\<close>, the payload holds no number at any depth, and no analysis
  prompt is sent: the call log is unchanged without a model, and otherwise grows by the
  duration prompt alone.
\<close>

theorem analyze_layover_feasibility_fails_closed:
  assumes "gemini_model = None \<or>
           fst (parse_duration_with_ai gemini_model duration_str calls) = None"
  shows "fst (analyze_layover_feasibility gemini_model loads now duration_str airport_code
                arrival_time travel_date weather_data calls) =
           [(''error'', PStr (''Unable to parse duration: '' @ duration_str)),
            (''airport_code'', PStr airport_code),
            (''analysis_failed'', PBool True)] \<and>
         map_of (fst (analyze_layover_feasibility gemini_model loads now duration_str airport_code
                        arrival_time travel_date weather_data calls)) ''analysis_failed''
           = Some (PBool True) \<and>
         \<not> has_number (PDict (fst (analyze_layover_feasibility gemini_model loads now duration_str
                                     airport_code arrival_time travel_date weather_data calls))) \<and>
         snd (analyze_layover_feasibility gemini_model loads now duration_str airport_code
                arrival_time travel_date weather_data calls) =
           (if gemini_model = None then calls else calls @ [DurationPrompt duration_str])"
proof -
  have f: "fst (parse_duration_with_ai gemini_model duration_str calls) = None"
    using assms by (auto simp: parse_unavailable)
  show ?thesis
    unfolding analyze_parse_failed [OF f]
    by (simp add: parse_calls split: option.splits)
qed

theorem analyze_layover_feasibility_fails_closed_witness:
  "fst (analyze_layover_feasibility None (\<lambda>t. None) ''now'' ''1h 30m'' ''ORD'' None None None []) =
     [(''error'', PStr ''Unable to parse duration: 1h 30m''),
      (''airport_code'', PStr ''ORD''),
      (''analysis_failed'', PBool True)] \<and>
   snd (analyze_layover_feasibility None (\<lambda>t. None) ''now'' ''1h 30m'' ''ORD'' None None None []) = [] \<and>
   fst (parse_duration_with_ai (Some (\<lambda>calls p. Text ''about ninety'')) ''1h 30m'' []) = None \<and>
   fst (analyze_layover_feasibility (Some (\<lambda>calls p. Text ''about ninety'')) (\<lambda>t. None) ''now''
          ''1h 30m'' ''ORD'' None None None []) =
     [(''error'', PStr ''Unable to parse duration: 1h 30m''),
      (''airport_code'', PStr ''ORD''),
      (''analysis_failed'', PBool True)] \<and>
   snd (analyze_layover_feasibility (Some (\<lambda>calls p. Text ''about ninety'')) (\<lambda>t. None) ''now''
          ''1h 30m'' ''ORD'' None None None []) = [DurationPrompt ''1h 30m'']"
proof -
  have i: "int_of_str (py_strip ''about ninety'') = None" by code_simp
  have p: "fst (parse_duration_with_ai (Some (\<lambda>calls p. Text ''about ninety'')) ''1h 30m'' []) = None"
    by (simp add: parse_duration_with_ai_def generate_content_def i)
  show ?thesis
    using analyze_layover_feasibility_fails_closed [where gemini_model = None
        and loads = "\<lambda>t. None" and now = "''now''" and duration_str = "''1h 30m''"
        and airport_code = "''ORD''" and arrival_time = None and travel_date = None
        and weather_data = None and calls = "[]"]
      analyze_layover_feasibility_fails_closed [where
        gemini_model = "Some (\<lambda>calls p. Text ''about ninety'')"
        and loads = "\<lambda>t. None" and now = "''now''" and duration_str = "''1h 30m''"
        and airport_code = "''ORD''" and arrival_time = None and travel_date = None
        and weather_data = None and calls = "[]"] p
    by simp
qed

section \<open>Batch layover analysis\<close>

lemma batch_without_layovers:
  "analyze_batch_layover_feasibility gemini_model loads [] calls = ([], calls)"
  by (simp add: analyze_batch_layover_feasibility_def)

text \<open>
  C7. For every list of layover descriptors, \<open>analyze_batch_layover_feasibility\<close> returns
  the empty mapping when the model is unavailable, when the model call raises, and when
  the cleaned answer does not parse to a JSON object (it does not parse, or parses to
  something else); no per-airport entry is made up.
\<close>

theorem batch_failure_gives_empty_mapping:
  assumes "gemini_model = None \<or>
           (\<exists>g. gemini_model = Some g \<and>
              (g calls (batch_prompt layover_data_list) = Raises \<or>
               (\<exists>t. g calls (batch_prompt layover_data_list) = Text t \<and>
                    (\<forall>d. loads (clean_batch_response t) \<noteq> Some (PDict d)))))"
  shows "fst (analyze_batch_layover_feasibility gemini_model loads layover_data_list calls) = []"
  using assms
  by (auto simp: analyze_batch_layover_feasibility_def generate_content_def Let_def
      split: option.splits reply.splits pyval.splits)

theorem batch_failure_gives_empty_mapping_witness:
  "fst (analyze_batch_layover_feasibility None (\<lambda>t. Some (PList [])) [sample_layover] []) = [] \<and>
   fst (analyze_batch_layover_feasibility (Some (\<lambda>calls p. Raises)) (\<lambda>t. Some (PList []))
          [sample_layover] []) = [] \<and>
   fst (analyze_batch_layover_feasibility (Some (\<lambda>calls p. Text ''[]'')) (\<lambda>t. Some (PList []))
          [sample_layover] []) = [] \<and>
   fst (analyze_batch_layover_feasibility (Some (\<lambda>calls p. Text ''no json'')) (\<lambda>t. None)
          [sample_layover] []) = []"
  using batch_failure_gives_empty_mapping [where gemini_model = None
      and loads = "\<lambda>t. Some (PList [])" and layover_data_list = "[sample_layover]" and calls = "[]"]
    batch_failure_gives_empty_mapping [where gemini_model = "Some (\<lambda>calls p. Raises)"
      and loads = "\<lambda>t. Some (PList [])" and layover_data_list = "[sample_layover]" and calls = "[]"]
    batch_failure_gives_empty_mapping [where gemini_model = "Some (\<lambda>calls p. Text ''[]'')"
      and loads = "\<lambda>t. Some (PList [])" and layover_data_list = "[sample_layover]" and calls = "[]"]
    batch_failure_gives_empty_mapping [where gemini_model = "Some (\<lambda>calls p. Text ''no json'')"
      and loads = "\<lambda>t. None" and layover_data_list = "[sample_layover]" and calls = "[]"]
  by simp

section \<open>Parsing the model's answer\<close>











section \<open>Layover durations in the normalized record\<close>

lemma str_nat_nonempty: "str_nat n \<noteq> []"
  by (subst str_nat.simps) simp

lemma format_not_unknown: "0 < d \<Longrightarrow> format_duration_from_minutes d \<noteq> ''Unknown''"
proof
  assume d: "0 < d" and e: "format_duration_from_minutes d = ''Unknown''"
  have "last (format_duration_from_minutes d) = CHR ''m'' \<or>
        last (format_duration_from_minutes d) = CHR ''h''"
    using d by (simp add: format_duration_from_minutes_def Let_def)
  then show False by (simp add: e)
qed

lemma format_90: "format_duration_from_minutes 90 = ''1h 30m''"
  by (simp add: format_duration_from_minutes_def str_int_def str_nat.simps digit_char_def)

lemma provided_layover_duration:
  "li_duration (provided_layover clock flights i ld) =
     (case lo_duration ld of
        None \<Rightarrow> ''1h 30m''
      | Some d \<Rightarrow> if d \<le> 0 then ''1h 30m'' else format_duration_from_minutes d)"
  by (simp add: provided_layover_def Let_def format_90 split: option.splits)

lemma provided_layover_known: "li_duration (provided_layover clock flights i ld) \<noteq> ''Unknown''"
  by (simp add: provided_layover_duration format_not_unknown split: option.splits)

lemma synthesized_layover_unknown: "li_duration (synthesized_layover clock flights i) = ''Unknown''"
  by (simp add: synthesized_layover_def Let_def)

lemma concat_gaps:
  "concat (map (\<lambda>j. if j + 1 < n then [h j] else []) [0 ..< m]) = map h [0 ..< min m (n - 1)]"
proof (induction m)
  case 0
  show ?case by simp
next
  case (Suc m)
  show ?case
  proof (cases "m + 1 < n")
    case True
    then have "min (Suc m) (n - 1) = Suc m" "min m (n - 1) = m" by simp_all
    then show ?thesis using Suc True by simp
  next
    case False
    then have "min (Suc m) (n - 1) = min m (n - 1)" by simp
    then show ?thesis using Suc False by simp
  qed
qed

lemma layovers_of_connections:
  "concat (map (\<lambda>c. case cn_layoverInfo c of Some li \<Rightarrow> [layover_record date0 li] | None \<Rightarrow> [])
             (map (make_connection clock flights lays airline_name) [0 ..< length flights]))
   = map (\<lambda>j. layover_record date0
                 (if j < length lays then provided_layover clock flights j (lays ! j)
                  else synthesized_layover clock flights j))
       [0 ..< length flights - 1]"
  (is "concat (map ?F (map ?mk ?xs)) = map ?h ?ys")
proof -
  have e: "?F \<circ> ?mk = (\<lambda>j. if j + 1 < length flights then [?h j] else [])"
    by (rule ext) (simp add: make_connection_def layover_for_def Let_def)
  have "concat (map ?F (map ?mk ?xs)) = concat (map (?F \<circ> ?mk) ?xs)"
    by simp
  also have "\<dots> = concat (map (\<lambda>j. if j + 1 < length flights then [?h j] else []) ?xs)"
    by (simp only: e)
  also have "\<dots> = map ?h [0 ..< min (length flights) (length flights - 1)]"
    by (rule concat_gaps)
  finally show ?thesis by simp
qed

text \<open>
  C10. In the record that \<open>_parse_flight_info\<close> builds, every gap between two segments
  has a layover. Where the provider supplied an entry for the gap, its duration is never
  \<open>Unknown\<close>: a missing duration or one that is \<open>\<le> 0\<close> is replaced by 90 minutes and
  reads \<open>1h 30m\<close>, a positive one is formatted. Only the gaps without a provider entry,
  which get a synthesized layover, read \<open>Unknown\<close>. The \<open>layovers\<close> list carries the same
  durations.
\<close>

theorem provided_layovers_never_unknown:
  assumes "parse_flight_info clock flight_data origin destination date0 = Some info"
      and "i + 1 < length (fi_flights info)"
  shows "\<exists>li. cn_layoverInfo (fi_connections info ! i) = Some li \<and>
           lv_duration (fi_layovers info ! i) = li_duration li \<and>
           (let provided = (case fp_layovers flight_data of Some ls \<Rightarrow> ls | None \<Rightarrow> []) in
              (i < length provided \<longrightarrow>
                 li_duration li \<noteq> ''Unknown'' \<and>
                 (case lo_duration (provided ! i) of
                    None \<Rightarrow> li_duration li = ''1h 30m''
                  | Some d \<Rightarrow>
                      (d \<le> 0 \<longrightarrow> li_duration li = ''1h 30m'') \<and>
                      (0 < d \<longrightarrow> li_duration li = format_duration_from_minutes d))) \<and>
              (length provided \<le> i \<longrightarrow> li_duration li = ''Unknown''))"
proof -
  define flights where "flights = (case fp_flights flight_data of Some fs \<Rightarrow> fs | None \<Rightarrow> [])"
  define lays where "lays = (case fp_layovers flight_data of Some ls \<Rightarrow> ls | None \<Rightarrow> [])"
  define airline_name where "airline_name = opt_or (seg_airline (hd flights)) ''Unknown''"
  have ne: "flights \<noteq> []"
    using assms(1) by (auto simp: parse_flight_info_def Let_def flights_def split: if_splits)
  have fl: "fi_flights info = flights"
    using assms(1) ne
    by (auto simp: parse_flight_info_def Let_def flights_def split: if_splits)
  have i: "i + 1 < length flights" using assms(2) fl by simp
  then have many: "length flights > 1" by simp
  have conns: "fi_connections info =
      map (make_connection clock flights lays airline_name) [0 ..< length flights]"
    using assms(1) ne many
    by (auto simp: parse_flight_info_def Let_def flights_def lays_def airline_name_def
        split: if_splits)
  have lvs: "fi_layovers info =
      concat (map (\<lambda>c. case cn_layoverInfo c of Some li \<Rightarrow> [layover_record date0 li] | None \<Rightarrow> [])
                (fi_connections info))"
    using assms(1) ne many
    by (auto simp: parse_flight_info_def Let_def flights_def lays_def airline_name_def
        split: if_splits)
  let ?li = "if i < length lays then provided_layover clock flights i (lays ! i)
             else synthesized_layover clock flights i"
  have a: "cn_layoverInfo (fi_connections info ! i) = Some ?li"
    using i by (simp add: conns make_connection_def layover_for_def Let_def)
  have "fi_layovers info =
      map (\<lambda>j. layover_record date0
                (if j < length lays then provided_layover clock flights j (lays ! j)
                 else synthesized_layover clock flights j))
        [0 ..< length flights - 1]"
    unfolding lvs conns by (rule layovers_of_connections)
  then have b: "fi_layovers info ! i = layover_record date0 ?li"
    using i by simp
  have c: "lv_duration (fi_layovers info ! i) = li_duration ?li"
    by (simp add: b layover_record_def)
  show ?thesis
  proof (intro exI conjI)
    show "cn_layoverInfo (fi_connections info ! i) = Some ?li" by (rule a)
    show "lv_duration (fi_layovers info ! i) = li_duration ?li" by (rule c)
    show "let provided = (case fp_layovers flight_data of Some ls \<Rightarrow> ls | None \<Rightarrow> []) in
              (i < length provided \<longrightarrow>
                 li_duration ?li \<noteq> ''Unknown'' \<and>
                 (case lo_duration (provided ! i) of
                    None \<Rightarrow> li_duration ?li = ''1h 30m''
                  | Some d \<Rightarrow>
                      (d \<le> 0 \<longrightarrow> li_duration ?li = ''1h 30m'') \<and>
                      (0 < d \<longrightarrow> li_duration ?li = format_duration_from_minutes d))) \<and>
              (length provided \<le> i \<longrightarrow> li_duration ?li = ''Unknown'')"
      unfolding Let_def lays_def [symmetric]
      using format_not_unknown
      by (auto simp: synthesized_layover_unknown provided_layover_duration not_le
            split: option.splits)
  qed
qed

lemma parse_flight_info_some:
  assumes "fp_flights fd = Some fs" and "fs \<noteq> []"
  shows "\<exists>info. parse_flight_info clock fd origin destination date0 = Some info \<and>
                fi_flights info = fs"
  using assms by (simp add: parse_flight_info_def Let_def)

theorem provided_layovers_never_unknown_witness:
  "parse_flight_info (\<lambda>t. None) sample_payload ''JFK'' ''LAX'' ''2025-07-12'' \<noteq> None \<and>
   length (fi_flights (the (parse_flight_info (\<lambda>t. None) sample_payload ''JFK'' ''LAX''
                              ''2025-07-12''))) = 3 \<and>
   lv_duration (fi_layovers (the (parse_flight_info (\<lambda>t. None) sample_payload ''JFK'' ''LAX''
                                    ''2025-07-12'')) ! 0) = ''1h 30m'' \<and>
   lv_duration (fi_layovers (the (parse_flight_info (\<lambda>t. None) sample_payload ''JFK'' ''LAX''
                                    ''2025-07-12'')) ! 1) = ''Unknown''"
proof -
  obtain info where p: "parse_flight_info (\<lambda>t. None) sample_payload ''JFK'' ''LAX'' ''2025-07-12''
                          = Some info"
    and f: "fi_flights info = [sample_segment, sample_segment, sample_segment]"
    using parse_flight_info_some [of sample_payload
        "[sample_segment, sample_segment, sample_segment]" "\<lambda>t. None" "''JFK''" "''LAX''"
        "''2025-07-12''"]
    by (auto simp: sample_payload_def)
  have "lv_duration (fi_layovers info ! 0) = ''1h 30m''"
    using provided_layovers_never_unknown [OF p, of 0]
    by (auto simp: f sample_payload_def Let_def)
  moreover have "lv_duration (fi_layovers info ! 1) = ''Unknown''"
    using provided_layovers_never_unknown [OF p, of 1]
    by (auto simp: f sample_payload_def Let_def)
  ultimately show ?thesis
    by (simp add: p f)
qed

end
